theory Spec2Isabelle
  imports Complex_Main
begin

section \<open>JavaScript numbers\<close>

text \<open>
  The component computes with JavaScript numbers. They are modelled as the reals extended
  by the three special values of IEEE-754 arithmetic: finite values are exact reals and
  \<open>Math.sin\<close>, \<open>Math.cos\<close>, \<open>Math.asin\<close>, \<open>Math.atan2\<close> and \<open>Math.sqrt\<close> are the
  mathematical functions; division by zero, operations on infinities and \<open>NaN\<close> follow the
  IEEE rules, and every comparison with \<open>NaN\<close> is false. The rounding of doubles and
  overflow to infinity are not modelled, and a zero counts as \<open>+0\<close> except in
  \<open>Math.atan2(b, -d)\<close> (see \<open>num_atan2_neg\<close>).

  Where doubles differ from this in kind, not only in the last digits: two slopes that are
  equal here can differ in their last bits, so that a quotient by their difference is a
  large finite number instead of an infinity; an angle within one unit in the last place
  of the critical angle can fall on the other side of the comparison; and just below the
  critical angle the product \<open>n * sin a\<close> can round above 1, where \<open>Math.asin\<close> returns
  \<open>NaN\<close>. No statement below is about such inputs unless it says so.
\<close>

datatype jsnum = Fin real | PInf | NInf | NaN

definition inf_of_sign :: "real \<Rightarrow> jsnum" where
  "inf_of_sign a = (if a = 0 then NaN else if 0 < a then PInf else NInf)"

fun is_finite :: "jsnum \<Rightarrow> bool" where
  "is_finite (Fin a) = True"
| "is_finite PInf = False"
| "is_finite NInf = False"
| "is_finite NaN = False"

fun num_neg :: "jsnum \<Rightarrow> jsnum" where
  "num_neg (Fin a) = Fin (- a)"
| "num_neg PInf = NInf"
| "num_neg NInf = PInf"
| "num_neg NaN = NaN"

fun num_add :: "jsnum \<Rightarrow> jsnum \<Rightarrow> jsnum" where
  "num_add (Fin a) (Fin b) = Fin (a + b)"
| "num_add (Fin a) PInf = PInf"
| "num_add (Fin a) NInf = NInf"
| "num_add (Fin a) NaN = NaN"
| "num_add PInf (Fin b) = PInf"
| "num_add PInf PInf = PInf"
| "num_add PInf NInf = NaN"
| "num_add PInf NaN = NaN"
| "num_add NInf (Fin b) = NInf"
| "num_add NInf PInf = NaN"
| "num_add NInf NInf = NInf"
| "num_add NInf NaN = NaN"
| "num_add NaN b = NaN"

definition num_sub :: "jsnum \<Rightarrow> jsnum \<Rightarrow> jsnum" where
  "num_sub a b = num_add a (num_neg b)"

fun num_mul :: "jsnum \<Rightarrow> jsnum \<Rightarrow> jsnum" where
  "num_mul (Fin a) (Fin b) = Fin (a * b)"
| "num_mul (Fin a) PInf = inf_of_sign a"
| "num_mul (Fin a) NInf = inf_of_sign (- a)"
| "num_mul (Fin a) NaN = NaN"
| "num_mul PInf (Fin b) = inf_of_sign b"
| "num_mul PInf PInf = PInf"
| "num_mul PInf NInf = NInf"
| "num_mul PInf NaN = NaN"
| "num_mul NInf (Fin b) = inf_of_sign (- b)"
| "num_mul NInf PInf = NInf"
| "num_mul NInf NInf = PInf"
| "num_mul NInf NaN = NaN"
| "num_mul NaN b = NaN"

fun num_div :: "jsnum \<Rightarrow> jsnum \<Rightarrow> jsnum" where
  "num_div (Fin a) (Fin b) = (if b = 0 then inf_of_sign a else Fin (a / b))"
| "num_div (Fin a) PInf = Fin 0"
| "num_div (Fin a) NInf = Fin 0"
| "num_div (Fin a) NaN = NaN"
| "num_div PInf (Fin b) = (if 0 \<le> b then PInf else NInf)"
| "num_div PInf PInf = NaN"
| "num_div PInf NInf = NaN"
| "num_div PInf NaN = NaN"
| "num_div NInf (Fin b) = (if 0 \<le> b then NInf else PInf)"
| "num_div NInf PInf = NaN"
| "num_div NInf NInf = NaN"
| "num_div NInf NaN = NaN"
| "num_div NaN b = NaN"

text \<open>The comparisons \<open><\<close> and \<open>>=\<close> of the source.\<close>

fun num_lt :: "jsnum \<Rightarrow> jsnum \<Rightarrow> bool" where
  "num_lt (Fin a) (Fin b) = (a < b)"
| "num_lt (Fin a) PInf = True"
| "num_lt (Fin a) NInf = False"
| "num_lt (Fin a) NaN = False"
| "num_lt PInf b = False"
| "num_lt NInf (Fin b) = True"
| "num_lt NInf PInf = True"
| "num_lt NInf NInf = False"
| "num_lt NInf NaN = False"
| "num_lt NaN b = False"

fun num_ge :: "jsnum \<Rightarrow> jsnum \<Rightarrow> bool" where
  "num_ge (Fin a) (Fin b) = (b \<le> a)"
| "num_ge (Fin a) PInf = False"
| "num_ge (Fin a) NInf = True"
| "num_ge (Fin a) NaN = False"
| "num_ge PInf (Fin b) = True"
| "num_ge PInf PInf = True"
| "num_ge PInf NInf = True"
| "num_ge PInf NaN = False"
| "num_ge NInf (Fin b) = False"
| "num_ge NInf PInf = False"
| "num_ge NInf NInf = True"
| "num_ge NInf NaN = False"
| "num_ge NaN b = False"

fun num_abs :: "jsnum \<Rightarrow> jsnum" where
  "num_abs (Fin a) = Fin \<bar>a\<bar>"
| "num_abs PInf = PInf"
| "num_abs NInf = PInf"
| "num_abs NaN = NaN"

text \<open>\<open>Math.max\<close> and \<open>Math.min\<close> of two arguments: \<open>NaN\<close> when either argument is.\<close>

fun num_max :: "jsnum \<Rightarrow> jsnum \<Rightarrow> jsnum" where
  "num_max NaN b = NaN"
| "num_max a NaN = NaN"
| "num_max a b = (if num_lt a b then b else a)"

fun num_min :: "jsnum \<Rightarrow> jsnum \<Rightarrow> jsnum" where
  "num_min NaN b = NaN"
| "num_min a NaN = NaN"
| "num_min a b = (if num_lt b a then b else a)"

fun num_sqrt :: "jsnum \<Rightarrow> jsnum" where
  "num_sqrt (Fin a) = (if 0 \<le> a then Fin (sqrt a) else NaN)"
| "num_sqrt PInf = PInf"
| "num_sqrt NInf = NaN"
| "num_sqrt NaN = NaN"

fun num_sin :: "jsnum \<Rightarrow> jsnum" where
  "num_sin (Fin a) = Fin (sin a)"
| "num_sin a = NaN"

fun num_cos :: "jsnum \<Rightarrow> jsnum" where
  "num_cos (Fin a) = Fin (cos a)"
| "num_cos a = NaN"

fun num_asin :: "jsnum \<Rightarrow> jsnum" where
  "num_asin (Fin a) = (if - 1 \<le> a \<and> a \<le> 1 then Fin (arcsin a) else NaN)"
| "num_asin a = NaN"

text \<open>\<open>Math.atan2(y, x)\<close>: the angle of the vector \<open>(x, y)\<close>, in \<open>(-pi, pi]\<close>.\<close>

definition atan2_real :: "real \<Rightarrow> real \<Rightarrow> real" where
  "atan2_real b a =
     (if 0 < a then arctan (b / a)
      else if a < 0 then (if 0 \<le> b then arctan (b / a) + pi else arctan (b / a) - pi)
      else if 0 < b then pi / 2
      else if b < 0 then - (pi / 2)
      else 0)"

fun num_atan2 :: "jsnum \<Rightarrow> jsnum \<Rightarrow> jsnum" where
  "num_atan2 NaN a = NaN"
| "num_atan2 b NaN = NaN"
| "num_atan2 (Fin b) (Fin a) = Fin (atan2_real b a)"
| "num_atan2 (Fin b) PInf = Fin 0"
| "num_atan2 (Fin b) NInf = (if 0 \<le> b then Fin pi else Fin (- pi))"
| "num_atan2 PInf (Fin a) = Fin (pi / 2)"
| "num_atan2 NInf (Fin a) = Fin (- (pi / 2))"
| "num_atan2 PInf PInf = Fin (pi / 4)"
| "num_atan2 PInf NInf = Fin (3 * pi / 4)"
| "num_atan2 NInf PInf = Fin (- (pi / 4))"
| "num_atan2 NInf NInf = Fin (- (3 * pi / 4))"

text \<open>
  \<open>Math.atan2(b, -d)\<close> for differences \<open>b\<close> and \<open>d\<close>, as both angle updates call it: the
  negation of a zero difference is the negative zero, and \<open>Math.atan2(0, -0)\<close> is \<open>pi\<close>
  where \<open>Math.atan2(0, 0)\<close> is 0. The result is only used under \<open>Math.abs\<close>.
\<close>

definition num_atan2_neg :: "jsnum \<Rightarrow> jsnum \<Rightarrow> jsnum" where
  "num_atan2_neg b d =
     (if b = Fin 0 \<and> d = Fin 0 then Fin pi else num_atan2 b (num_neg d))"

definition num_PI :: jsnum where
  "num_PI = Fin pi"

text \<open>
  \<open>parseFloat(v.toFixed(1))\<close>: the decimal with one fractional digit nearest to \<open>v\<close>, the
  larger in magnitude of two equally near ones. From \<open>10^21\<close> on \<open>toFixed\<close> prints the
  number itself, and \<open>NaN\<close> and the infinities print and parse as themselves.
\<close>

definition round1 :: "real \<Rightarrow> real" where
  "round1 a = of_int \<lfloor>a * 10 + 1 / 2\<rfloor> / 10"

fun parseFloat_toFixed1 :: "jsnum \<Rightarrow> jsnum" where
  "parseFloat_toFixed1 (Fin a) =
     (if 10 ^ 21 \<le> \<bar>a\<bar> then Fin a
      else if a < 0 then Fin (- round1 (- a))
      else Fin (round1 a))"
| "parseFloat_toFixed1 a = a"

section \<open>The state of the component\<close>

text \<open>
  A point is an object \<open>{ x, y }\<close>; the fields are called \<open>px\<close> and \<open>py\<close> here. The
  record \<open>state\<close> holds the refs of the component; \<open>dragging\<close> is \<open>null\<close> (\<open>None\<close>) or the
  name of what is being dragged.
\<close>

record point =
  px :: jsnum
  py :: jsnum

datatype drag_target = LeftPoint | RightPoint | ApparentPosition | RealPosition | Viewport

record state =
  refractiveIndex :: jsnum
  leftPoint :: point
  rightPoint :: point
  apparentPosition :: point
  lockRealPosition :: bool
  leftAngleDeg :: jsnum
  rightAngleDeg :: jsnum
  viewportOffset :: point
  dragging :: "drag_target option"
  dragStart :: point
  updatingFromDrag :: bool
  updatingFromAngleChange :: bool

definition waterLevelY :: jsnum where
  "waterLevelY = Fin 450"

definition airIndex :: jsnum where
  "airIndex = Fin 1"

definition initial_state :: state where
  "initial_state =
     \<lparr> refractiveIndex = Fin (133 / 100),
       leftPoint = \<lparr> px = Fin 250, py = waterLevelY \<rparr>,
       rightPoint = \<lparr> px = Fin 550, py = waterLevelY \<rparr>,
       apparentPosition = \<lparr> px = Fin 400, py = Fin 200 \<rparr>,
       lockRealPosition = True,
       leftAngleDeg = Fin 30,
       rightAngleDeg = Fin 30,
       viewportOffset = \<lparr> px = Fin 0, py = Fin 0 \<rparr>,
       dragging = None,
       dragStart = \<lparr> px = Fin 0, py = Fin 0 \<rparr>,
       updatingFromDrag = False,
       updatingFromAngleChange = False \<rparr>"

section \<open>Derived quantities\<close>

definition criticalAngle :: "state \<Rightarrow> jsnum" where
  "criticalAngle s =
     num_div (num_mul (num_asin (num_div airIndex (refractiveIndex s))) (Fin 180)) num_PI"

definition distanceBetweenPoints :: "state \<Rightarrow> jsnum" where
  "distanceBetweenPoints s = num_abs (num_sub (px (rightPoint s)) (px (leftPoint s)))"

definition leftExceedsCritical :: "state \<Rightarrow> bool" where
  "leftExceedsCritical s = num_ge (leftAngleDeg s) (criticalAngle s)"

definition rightExceedsCritical :: "state \<Rightarrow> bool" where
  "rightExceedsCritical s = num_ge (rightAngleDeg s) (criticalAngle s)"

text \<open>
  Snell's law from water to air, as both \<open>leftRefractedAngle\<close> and \<open>rightRefractedAngle\<close>
  compute it from an angle in degrees, and from air to water, as \<open>updateApparentFromReal\<close>
  and \<open>updateAnglesFromRealPosition\<close> compute it from an angle in radians.
\<close>

definition waterToAirDeg :: "jsnum \<Rightarrow> jsnum \<Rightarrow> jsnum" where
  "waterToAirDeg n angleDeg =
     (let incidentRad = num_div (num_mul angleDeg num_PI) (Fin 180);
          refractedRad = num_asin (num_mul (num_div n airIndex) (num_sin incidentRad))
      in num_div (num_mul refractedRad (Fin 180)) num_PI)"

definition airToWaterRad :: "jsnum \<Rightarrow> jsnum \<Rightarrow> jsnum" where
  "airToWaterRad n incidentRad = num_asin (num_mul (num_div airIndex n) (num_sin incidentRad))"

definition leftRefractedAngle :: "state \<Rightarrow> jsnum" where
  "leftRefractedAngle s =
     (if leftExceedsCritical s then NaN else waterToAirDeg (refractiveIndex s) (leftAngleDeg s))"

definition rightRefractedAngle :: "state \<Rightarrow> jsnum" where
  "rightRefractedAngle s =
     (if rightExceedsCritical s then NaN else waterToAirDeg (refractiveIndex s) (rightAngleDeg s))"

definition calculateRayPoint :: "point \<Rightarrow> jsnum \<Rightarrow> jsnum \<Rightarrow> bool \<Rightarrow> point" where
  "calculateRayPoint startPoint angleDeg len isLeft =
     (let angleRad = num_div (num_mul angleDeg num_PI) (Fin 180);
          xDirection = (if isLeft then Fin (- 1) else Fin 1);
          endX = num_add (px startPoint) (num_mul (num_mul len (num_sin angleRad)) xDirection);
          endY = num_sub (py startPoint) (num_mul len (num_cos angleRad))
      in \<lparr> px = endX, py = endY \<rparr>)"

text \<open>
  The slope of the ray from a refraction point through a point on the ray, and the
  intersection of the two rays; \<open>realPosition\<close> and \<open>updateApparentFromReal\<close> contain the
  same two expressions.
\<close>

definition raySlope :: "point \<Rightarrow> point \<Rightarrow> jsnum" where
  "raySlope rayPoint p =
     num_div (num_sub (py rayPoint) (py p)) (num_sub (px rayPoint) (px p))"

definition intersectRays :: "point \<Rightarrow> jsnum \<Rightarrow> point \<Rightarrow> jsnum \<Rightarrow> point" where
  "intersectRays l leftSlope r rightSlope =
     (let x = num_div
                (num_sub (num_sub (num_mul leftSlope (px l)) (py l))
                         (num_sub (num_mul rightSlope (px r)) (py r)))
                (num_sub leftSlope rightSlope);
          y = num_add (num_mul leftSlope (num_sub x (px l))) (py l)
      in \<lparr> px = x, py = y \<rparr>)"

definition realLeftSlope :: "state \<Rightarrow> jsnum" where
  "realLeftSlope s =
     raySlope (calculateRayPoint (leftPoint s) (leftRefractedAngle s) (Fin 1000)
                 (num_lt (px (apparentPosition s)) (px (leftPoint s))))
              (leftPoint s)"

definition realRightSlope :: "state \<Rightarrow> jsnum" where
  "realRightSlope s =
     raySlope (calculateRayPoint (rightPoint s) (rightRefractedAngle s) (Fin 1000)
                 (num_lt (px (apparentPosition s)) (px (rightPoint s))))
              (rightPoint s)"

definition realPosition :: "state \<Rightarrow> point option" where
  "realPosition s =
     (if leftExceedsCritical s \<or> rightExceedsCritical s then None
      else Some (intersectRays (leftPoint s) (realLeftSlope s) (rightPoint s) (realRightSlope s)))"

text \<open>
  \<open>updateApparentFromReal\<close> writes \<open>apparentPosition\<close> or returns early; the early returns
  leave the state as it is.
\<close>

definition updateApparentFromReal :: "state \<Rightarrow> state" where
  "updateApparentFromReal s =
     (if \<not> lockRealPosition s then s
      else case realPosition s of
        None \<Rightarrow> s
      | Some realPos \<Rightarrow>
          if num_ge (py realPos) waterLevelY \<or> leftExceedsCritical s \<or> rightExceedsCritical s
          then s
          else
            let leftDx = num_sub (px realPos) (px (leftPoint s));
                leftDy = num_sub (py realPos) (py (leftPoint s));
                rightDx = num_sub (px realPos) (px (rightPoint s));
                rightDy = num_sub (py realPos) (py (rightPoint s));
                leftIncidentRad = num_atan2 (num_abs leftDx) (num_abs leftDy);
                rightIncidentRad = num_atan2 (num_abs rightDx) (num_abs rightDy);
                leftWaterRad = airToWaterRad (refractiveIndex s) leftIncidentRad;
                rightWaterRad = airToWaterRad (refractiveIndex s) rightIncidentRad;
                leftIsLeft = num_lt leftDx (Fin 0);
                rightIsLeft = num_lt rightDx (Fin 0);
                leftWaterPoint = calculateRayPoint (leftPoint s)
                  (num_div (num_mul leftWaterRad (Fin 180)) num_PI) (Fin 1000) leftIsLeft;
                rightWaterPoint = calculateRayPoint (rightPoint s)
                  (num_div (num_mul rightWaterRad (Fin 180)) num_PI) (Fin 1000) rightIsLeft;
                leftSlope = raySlope leftWaterPoint (leftPoint s);
                rightSlope = raySlope rightWaterPoint (rightPoint s)
            in s\<lparr>apparentPosition :=
                   intersectRays (leftPoint s) leftSlope (rightPoint s) rightSlope\<rparr>)"

definition screenToWorld :: "state \<Rightarrow> jsnum \<Rightarrow> jsnum \<Rightarrow> point" where
  "screenToWorld s screenX screenY =
     \<lparr> px = num_sub screenX (px (viewportOffset s)),
       py = num_sub screenY (py (viewportOffset s)) \<rparr>"

definition worldToScreen :: "state \<Rightarrow> jsnum \<Rightarrow> jsnum \<Rightarrow> point" where
  "worldToScreen s worldX worldY =
     \<lparr> px = num_add worldX (px (viewportOffset s)),
       py = num_add worldY (py (viewportOffset s)) \<rparr>"

section \<open>Recomputing the angles\<close>

definition updateAnglesFromPositions :: "state \<Rightarrow> state" where
  "updateAnglesFromPositions s =
     (let leftDx = num_sub (px (apparentPosition s)) (px (leftPoint s));
          leftDy = num_sub (py (apparentPosition s)) (py (leftPoint s));
          rightDx = num_sub (px (apparentPosition s)) (px (rightPoint s));
          rightDy = num_sub (py (apparentPosition s)) (py (rightPoint s));
          leftAngle = num_abs (num_atan2_neg leftDx leftDy);
          rightAngle = num_abs (num_atan2_neg rightDx rightDy)
      in s\<lparr>leftAngleDeg := parseFloat_toFixed1 (num_div (num_mul leftAngle (Fin 180)) num_PI),
            rightAngleDeg :=
              parseFloat_toFixed1 (num_div (num_mul rightAngle (Fin 180)) num_PI)\<rparr>)"

definition updateAnglesFromRealPosition :: "point \<Rightarrow> state \<Rightarrow> state" where
  "updateAnglesFromRealPosition realPos s =
     (let leftDx = num_sub (px realPos) (px (leftPoint s));
          leftDy = num_sub (py realPos) (py (leftPoint s));
          rightDx = num_sub (px realPos) (px (rightPoint s));
          rightDy = num_sub (py realPos) (py (rightPoint s));
          leftIncidentAngle = num_abs (num_atan2_neg leftDx leftDy);
          rightIncidentAngle = num_abs (num_atan2_neg rightDx rightDy);
          leftWaterAngle = airToWaterRad (refractiveIndex s) leftIncidentAngle;
          rightWaterAngle = airToWaterRad (refractiveIndex s) rightIncidentAngle
      in s\<lparr>leftAngleDeg :=
              parseFloat_toFixed1 (num_div (num_mul leftWaterAngle (Fin 180)) num_PI),
            rightAngleDeg :=
              parseFloat_toFixed1 (num_div (num_mul rightWaterAngle (Fin 180)) num_PI)\<rparr>)"

section \<open>Mouse handlers\<close>

text \<open>
  A mouse event carries \<open>clientX\<close> and \<open>clientY\<close>; the bounding rectangle of the canvas
  gives \<open>left\<close> and \<open>top\<close>. \<open>drawScene\<close> paints the canvas and writes no ref, so the
  handlers below leave it out.
\<close>

record mouse_event =
  clientX :: jsnum
  clientY :: jsnum

record dom_rect =
  rect_left :: jsnum
  rect_top :: jsnum

definition isNearPoint :: "state \<Rightarrow> jsnum \<Rightarrow> jsnum \<Rightarrow> point \<Rightarrow> jsnum \<Rightarrow> bool" where
  "isNearPoint s screenX screenY p threshold =
     (let screenPoint = worldToScreen s (px p) (py p);
          dx = num_sub screenX (px screenPoint);
          dy = num_sub screenY (py screenPoint)
      in num_lt (num_sqrt (num_add (num_mul dx dx) (num_mul dy dy))) threshold)"

definition handleMouseDown :: "dom_rect \<Rightarrow> mouse_event \<Rightarrow> state \<Rightarrow> state" where
  "handleMouseDown rect e s =
     (let screenX = num_sub (clientX e) (rect_left rect);
          screenY = num_sub (clientY e) (rect_top rect);
          s1 = s\<lparr>dragStart := \<lparr> px = screenX, py = screenY \<rparr>\<rparr>;
          near = (\<lambda>p. isNearPoint s1 screenX screenY p (Fin 15))
      in if near (leftPoint s1) then s1\<lparr>dragging := Some LeftPoint\<rparr>
         else if near (rightPoint s1) then s1\<lparr>dragging := Some RightPoint\<rparr>
         else if near (apparentPosition s1) then s1\<lparr>dragging := Some ApparentPosition\<rparr>
         else if (case realPosition s1 of None \<Rightarrow> False | Some r \<Rightarrow> near r)
           then s1\<lparr>dragging := Some RealPosition\<rparr>
         else s1\<lparr>dragging := Some Viewport\<rparr>)"

definition handleMouseMove :: "dom_rect \<Rightarrow> mouse_event \<Rightarrow> state \<Rightarrow> state" where
  "handleMouseMove rect e s =
     (case dragging s of
        None \<Rightarrow> s
      | Some target \<Rightarrow>
         (let screenX = num_sub (clientX e) (rect_left rect);
              screenY = num_sub (clientY e) (rect_top rect);
              w = screenToWorld s screenX screenY
          in (case target of
               Viewport \<Rightarrow>
                 s\<lparr>viewportOffset :=
                     \<lparr> px = num_add (px (viewportOffset s)) (num_sub screenX (px (dragStart s))),
                       py = num_add (py (viewportOffset s)) (num_sub screenY (py (dragStart s))) \<rparr>,
                   dragStart := \<lparr> px = screenX, py = screenY \<rparr>\<rparr>
             | LeftPoint \<Rightarrow>
                 (updateAnglesFromPositions
                    (s\<lparr>leftPoint := \<lparr> px = px w, py = waterLevelY \<rparr>,
                       updatingFromDrag := True\<rparr>))
                 \<lparr>updatingFromDrag := False\<rparr>
             | RightPoint \<Rightarrow>
                 (updateAnglesFromPositions
                    (s\<lparr>rightPoint := \<lparr> px = px w, py = waterLevelY \<rparr>,
                       updatingFromDrag := True\<rparr>))
                 \<lparr>updatingFromDrag := False\<rparr>
             | ApparentPosition \<Rightarrow>
                 if num_lt (py w) waterLevelY
                 then (updateAnglesFromPositions
                         (s\<lparr>apparentPosition := \<lparr> px = px w, py = py w \<rparr>,
                            updatingFromDrag := True\<rparr>))
                      \<lparr>updatingFromDrag := False\<rparr>
                 else s
             | RealPosition \<Rightarrow>
                 if num_lt (py w) waterLevelY \<and> lockRealPosition s
                 then (updateApparentFromReal
                         (updateAnglesFromRealPosition \<lparr> px = px w, py = py w \<rparr>
                            (s\<lparr>updatingFromDrag := True\<rparr>)))
                      \<lparr>updatingFromDrag := False\<rparr>
                 else s)))"

definition handleMouseUp :: "state \<Rightarrow> state" where
  "handleMouseUp s = s\<lparr>dragging := None\<rparr>"

section \<open>Watchers and mounting\<close>

text \<open>
  The callbacks given to \<open>watch\<close> and \<open>onMounted\<close>, as functions on the state. The
  component calls \<open>watch\<close> without a flush option, for which the framework defers the
  callback: it runs after the handler or binding that wrote a watched ref has returned.
\<close>

definition angleWatcher :: "state \<Rightarrow> state" where
  "angleWatcher s =
     (if updatingFromDrag s then s
      else
        let s1 = s\<lparr>leftAngleDeg := num_max (Fin 0) (num_min (Fin (899 / 10)) (leftAngleDeg s))\<rparr>;
            s2 = s1\<lparr>rightAngleDeg :=
                      num_max (Fin 0) (num_min (Fin (899 / 10)) (rightAngleDeg s1))\<rparr>
        in updateApparentFromReal s2)"

definition refractiveIndexWatcher :: "state \<Rightarrow> state" where
  "refractiveIndexWatcher s = (if lockRealPosition s then updateApparentFromReal s else s)"

definition lockRealPositionWatcher :: "state \<Rightarrow> state" where
  "lockRealPositionWatcher s = updateApparentFromReal s"

definition onMounted :: "state \<Rightarrow> state" where
  "onMounted s = updateAnglesFromPositions (s\<lparr>viewportOffset := \<lparr> px = Fin 0, py = Fin 0 \<rparr>\<rparr>)"

section \<open>Runs of the component\<close>

text \<open>
  Everything that can write a ref: the three mouse handlers, the three input bindings
  (\<open>v-model\<close> on the refractive index, the two angles and the lock), the three watcher
  callbacks and the mount hook. A run applies them in any order, which covers every order
  in which the framework may call the callbacks; the step of a watcher callback comes after
  the step whose write triggered it.
\<close>

datatype event =
    MouseDown dom_rect mouse_event
  | MouseMove dom_rect mouse_event
  | MouseUp
  | InputRefractiveIndex jsnum
  | InputLeftAngle jsnum
  | InputRightAngle jsnum
  | InputLock bool
  | AngleWatcher
  | RefractiveIndexWatcher
  | LockRealPositionWatcher
  | Mounted

fun step :: "event \<Rightarrow> state \<Rightarrow> state" where
  "step (MouseDown rect e) s = handleMouseDown rect e s"
| "step (MouseMove rect e) s = handleMouseMove rect e s"
| "step MouseUp s = handleMouseUp s"
| "step (InputRefractiveIndex v) s = s\<lparr>refractiveIndex := v\<rparr>"
| "step (InputLeftAngle v) s = s\<lparr>leftAngleDeg := v\<rparr>"
| "step (InputRightAngle v) s = s\<lparr>rightAngleDeg := v\<rparr>"
| "step (InputLock b) s = s\<lparr>lockRealPosition := b\<rparr>"
| "step AngleWatcher s = angleWatcher s"
| "step RefractiveIndexWatcher s = refractiveIndexWatcher s"
| "step LockRealPositionWatcher s = lockRealPositionWatcher s"
| "step Mounted s = onMounted s"

fun run :: "event list \<Rightarrow> state \<Rightarrow> state" where
  "run [] s = s"
| "run (ev # evs) s = run evs (step ev s)"

section \<open>Configurations and invariants used below\<close>

text \<open>Both refraction points lie on the interface line.\<close>

definition on_interface :: "state \<Rightarrow> bool" where
  "on_interface s \<longleftrightarrow> py (leftPoint s) = waterLevelY \<and> py (rightPoint s) = waterLevelY"

text \<open>The initial configuration with both angles set to 0: both rays are vertical.\<close>

definition vertical_rays :: state where
  "vertical_rays = initial_state\<lparr>leftAngleDeg := Fin 0, rightAngleDeg := Fin 0\<rparr>"

text \<open>
  The initial configuration with the apparent position to the left of both refraction
  points: equal angles, both points classified on the same side.
\<close>

definition same_side_rays :: state where
  "same_side_rays = initial_state\<lparr>apparentPosition := \<lparr> px = Fin 100, py = Fin 200 \<rparr>\<rparr>"

text \<open>The initial configuration with refractive index 1, and with refractive index 1/2.\<close>

definition index_one :: state where
  "index_one = initial_state\<lparr>refractiveIndex := Fin 1\<rparr>"

definition index_half :: state where
  "index_half = initial_state\<lparr>refractiveIndex := Fin (1 / 2)\<rparr>"

text \<open>The initial configuration while the apparent position is being dragged.\<close>

definition dragging_apparent :: state where
  "dragging_apparent = initial_state\<lparr>dragging := Some ApparentPosition\<rparr>"

definition canvas_rect :: dom_rect where
  "canvas_rect = \<lparr> rect_left = Fin 0, rect_top = Fin 0 \<rparr>"

text \<open>
  Quantities of the proofs: the cotangent of an angle given in degrees; the sign of the
  slope of a ray (in screen coordinates a ray that leaves to the left has positive slope);
  the abscissa where two lines through the interface points \<open>(lx, w)\<close> and \<open>(rx, w)\<close> with
  slopes \<open>m1\<close> and \<open>m2\<close> meet; and the water-to-air refracted angle in degrees.
\<close>

definition cot_deg :: "real \<Rightarrow> real" where
  "cot_deg d = cos (d * pi / 180) / sin (d * pi / 180)"

definition side_sign :: "bool \<Rightarrow> real" where
  "side_sign isLeft = (if isLeft then 1 else - 1)"

definition meet_x :: "real \<Rightarrow> real \<Rightarrow> real \<Rightarrow> real \<Rightarrow> real" where
  "meet_x lx m1 rx m2 = (m1 * lx - m2 * rx) / (m1 - m2)"

definition refracted_deg :: "real \<Rightarrow> real \<Rightarrow> real" where
  "refracted_deg n a = arcsin (n * sin (a * pi / 180)) * 180 / pi"

text \<open>A symmetric configuration other than the initial one.\<close>

definition symmetric_rays :: state where
  "symmetric_rays =
     initial_state\<lparr>leftPoint := \<lparr> px = Fin 100, py = waterLevelY \<rparr>,
                   rightPoint := \<lparr> px = Fin 500, py = waterLevelY \<rparr>,
                   apparentPosition := \<lparr> px = Fin 300, py = Fin 100 \<rparr>,
                   leftAngleDeg := Fin 20, rightAngleDeg := Fin 20\<rparr>"

text \<open>
  The initial configuration with both angles set to \<open>a\<close> while the apparent position is
  being dragged, and the mouse event at a given point of the canvas.
\<close>

definition equal_angles :: "real \<Rightarrow> state" where
  "equal_angles a = dragging_apparent\<lparr>leftAngleDeg := Fin a, rightAngleDeg := Fin a\<rparr>"

definition mouse_at :: "point \<Rightarrow> mouse_event" where
  "mouse_at p = \<lparr> clientX = px p, clientY = py p \<rparr>"

section \<open>Arithmetic of the special values\<close>

lemma num_ge_NaN [simp]: "num_ge a NaN = False"
  by (cases a) simp_all

lemma num_ge_not_lt: "num_ge a b \<Longrightarrow> \<not> num_lt a b"
  by (cases a; cases b) simp_all

lemma not_finite_sub_left: "\<not> is_finite a \<Longrightarrow> \<not> is_finite (num_sub a b)"
  by (cases a; cases b) (simp_all add: num_sub_def)

lemma not_finite_add_left: "\<not> is_finite a \<Longrightarrow> \<not> is_finite (num_add a b)"
  by (cases a; cases b) simp_all

lemma not_finite_mul_right: "\<not> is_finite b \<Longrightarrow> \<not> is_finite (num_mul a b)"
  by (cases a; cases b) (simp_all add: inf_of_sign_def)

lemma not_finite_div_self_sub: "\<not> is_finite (num_div a (num_sub m m))"
  by (cases a; cases m) (simp_all add: num_sub_def inf_of_sign_def)

lemma intersectRays_parallel:
  "\<not> is_finite (px (intersectRays l m r m)) \<and> \<not> is_finite (py (intersectRays l m r m))"
  by (simp add: intersectRays_def Let_def not_finite_div_self_sub not_finite_sub_left
      not_finite_add_left not_finite_mul_right)

section \<open>The critical angle\<close>

lemma criticalAngle_ge_one:
  assumes "refractiveIndex s = Fin n" and "1 \<le> n"
  shows "criticalAngle s = Fin (arcsin (1 / n) * 180 / pi)"
proof -
  have "0 \<le> 1 / n" using assms by simp
  then have "- 1 \<le> 1 / n" by linarith
  with assms show ?thesis
    by (simp add: criticalAngle_def airIndex_def num_PI_def)
qed

lemma criticalAngle_lt_one:
  assumes "refractiveIndex s = Fin n" and "- 1 < n" and "n < 1"
  shows "criticalAngle s = NaN"
proof (cases "n = 0")
  case True
  with assms show ?thesis
    by (simp add: criticalAngle_def airIndex_def num_PI_def inf_of_sign_def)
next
  case False
  have "\<not> (- 1 \<le> 1 / n \<and> 1 / n \<le> 1)"
  proof (cases "0 < n")
    case True
    with assms have "1 < 1 / n" by simp
    then show ?thesis by simp
  next
    case f: False
    with False have "n < 0" by simp
    with assms have "1 / n < - 1"
      by (simp add: divide_less_eq)
    then show ?thesis by simp
  qed
  with False assms show ?thesis
    by (simp add: criticalAngle_def airIndex_def num_PI_def)
qed

lemma criticalAngle_133:
  assumes "refractiveIndex s = Fin (133 / 100)"
  shows "criticalAngle s = Fin (arcsin (100 / 133) * 180 / pi)"
  using criticalAngle_ge_one [OF assms] by simp

lemma arcsin_100_133_bounds:
  "0 < arcsin (100 / 133 :: real)"
  "pi / 6 < arcsin (100 / 133 :: real)"
  "arcsin (100 / 133 :: real) < pi / 3"
proof -
  have "arcsin (1 / 2 :: real) < arcsin (100 / 133)"
    by (rule arcsin_less_arcsin) simp_all
  then show *: "pi / 6 < arcsin (100 / 133 :: real)" by simp
  have "0 < pi / 6" by simp
  with * show "0 < arcsin (100 / 133 :: real)" by linarith
  have "(200 / 133 :: real) < sqrt 3"
    by (rule real_less_rsqrt) (simp add: power2_eq_square)
  then have "(100 / 133 :: real) < sqrt 3 / 2" by simp
  then have "arcsin (100 / 133 :: real) < arcsin (sqrt 3 / 2)"
    by (intro arcsin_less_arcsin) (simp_all add: real_le_lsqrt)
  moreover have "arcsin (sqrt 3 / 2) = pi / 3"
    using arcsin_sin [of "pi / 3"] by (simp add: sin_60)
  ultimately show "arcsin (100 / 133 :: real) < pi / 3" by simp
qed

lemma criticalAngle_133_bounds:
  "0 < arcsin (100 / 133 :: real) * 180 / pi"
  "30 < arcsin (100 / 133 :: real) * 180 / pi"
  "arcsin (100 / 133 :: real) * 180 / pi < 60"
  using arcsin_100_133_bounds by (simp_all add: pos_less_divide_eq pos_divide_less_eq)

section \<open>Facts about the configurations\<close>

lemma vertical_rays_fields:
  "refractiveIndex vertical_rays = Fin (133 / 100)"
  "leftPoint vertical_rays = \<lparr> px = Fin 250, py = Fin 450 \<rparr>"
  "rightPoint vertical_rays = \<lparr> px = Fin 550, py = Fin 450 \<rparr>"
  "apparentPosition vertical_rays = \<lparr> px = Fin 400, py = Fin 200 \<rparr>"
  "leftAngleDeg vertical_rays = Fin 0"
  "rightAngleDeg vertical_rays = Fin 0"
  by (simp_all add: vertical_rays_def initial_state_def waterLevelY_def)

lemma same_side_rays_fields:
  "refractiveIndex same_side_rays = Fin (133 / 100)"
  "leftPoint same_side_rays = \<lparr> px = Fin 250, py = Fin 450 \<rparr>"
  "rightPoint same_side_rays = \<lparr> px = Fin 550, py = Fin 450 \<rparr>"
  "apparentPosition same_side_rays = \<lparr> px = Fin 100, py = Fin 200 \<rparr>"
  "leftAngleDeg same_side_rays = Fin 30"
  "rightAngleDeg same_side_rays = Fin 30"
  by (simp_all add: same_side_rays_def initial_state_def waterLevelY_def)

lemma initial_state_fields:
  "refractiveIndex initial_state = Fin (133 / 100)"
  "leftPoint initial_state = \<lparr> px = Fin 250, py = Fin 450 \<rparr>"
  "rightPoint initial_state = \<lparr> px = Fin 550, py = Fin 450 \<rparr>"
  "apparentPosition initial_state = \<lparr> px = Fin 400, py = Fin 200 \<rparr>"
  "leftAngleDeg initial_state = Fin 30"
  "rightAngleDeg initial_state = Fin 30"
  "lockRealPosition initial_state"
  "\<not> updatingFromDrag initial_state"
  by (simp_all add: initial_state_def waterLevelY_def)

lemma vertical_rays_no_tir:
  "\<not> leftExceedsCritical vertical_rays" "\<not> rightExceedsCritical vertical_rays"
  using criticalAngle_133_bounds
  by (simp_all add: leftExceedsCritical_def rightExceedsCritical_def criticalAngle_133
      vertical_rays_fields not_le)

lemma vertical_rays_slopes:
  "realLeftSlope vertical_rays = NInf" "realRightSlope vertical_rays = NInf"
  using vertical_rays_no_tir
  by (simp_all add: realLeftSlope_def realRightSlope_def leftRefractedAngle_def
      rightRefractedAngle_def waterToAirDeg_def calculateRayPoint_def raySlope_def Let_def
      num_sub_def num_PI_def airIndex_def inf_of_sign_def vertical_rays_fields)

lemma same_side_no_tir:
  "\<not> leftExceedsCritical same_side_rays" "\<not> rightExceedsCritical same_side_rays"
  using criticalAngle_133_bounds
  by (simp_all add: leftExceedsCritical_def rightExceedsCritical_def criticalAngle_133
      same_side_rays_fields)

section \<open>Parallel rays\<close>

lemma vertical_rays_realPosition:
  "realPosition vertical_rays = Some \<lparr> px = NaN, py = NaN \<rparr>"
  using vertical_rays_no_tir
  by (simp add: realPosition_def vertical_rays_slopes vertical_rays_fields intersectRays_def
      Let_def num_sub_def inf_of_sign_def)

text \<open>
  C1 (amended). \<open>realPosition\<close> returns \<open>null\<close> exactly when a side is in total internal
  reflection. In every other state, whatever the two rays are, it returns a point object;
  and when the two computed slopes are equal, both coordinates of that point are
  non-finite (\<open>NaN\<close> or an infinity).
\<close>

theorem realPosition_null_or_point:
  "(realPosition s = None \<longleftrightarrow> leftExceedsCritical s \<or> rightExceedsCritical s) \<and>
   (\<forall>p. realPosition s = Some p \<and> realLeftSlope s = realRightSlope s \<longrightarrow>
        \<not> is_finite (px p) \<and> \<not> is_finite (py p))"
  using intersectRays_parallel [of "leftPoint s" "realRightSlope s" "rightPoint s"]
  by (auto simp add: realPosition_def)

theorem realPosition_parallel_counterexample:
  "\<not> leftExceedsCritical vertical_rays \<and> \<not> rightExceedsCritical vertical_rays \<and>
   realLeftSlope vertical_rays = realRightSlope vertical_rays \<and>
   realPosition vertical_rays = Some \<lparr> px = NaN, py = NaN \<rparr>"
  using vertical_rays_no_tir vertical_rays_slopes vertical_rays_realPosition by simp

section \<open>No-op of updateApparentFromReal\<close>

text \<open>
  The guard of \<open>updateApparentFromReal\<close>: with the real position \<open>null\<close>, at or below the
  interface, or a side in total internal reflection, the state is returned unchanged.
\<close>

lemma updateApparentFromReal_guard:
  assumes "realPosition s = None
           \<or> (\<exists>p. realPosition s = Some p \<and> num_ge (py p) waterLevelY)
           \<or> leftExceedsCritical s \<or> rightExceedsCritical s"
  shows "updateApparentFromReal s = s"
  using assms by (auto simp add: updateApparentFromReal_def split: option.splits)

text \<open>
  C8: \<open>updateApparentFromReal\<close> is to leave the state unchanged when the real position is
  absent, at or below the interface, or a side is in total internal reflection. The guard
  does so for a \<open>null\<close> real position, for \<open>y >= waterLevelY\<close> and for the two flags, but
  not for the real position of parallel rays: with both rays vertical and the lock on, that
  position is the point \<open>(NaN, NaN)\<close>, it passes the guard (\<open>NaN >= 450\<close> is false), and
  the apparent position \<open>(400, 200)\<close> is overwritten with \<open>(NaN, NaN)\<close>.
\<close>

theorem updateApparentFromReal_degenerate:
  "lockRealPosition vertical_rays \<and>
   \<not> leftExceedsCritical vertical_rays \<and> \<not> rightExceedsCritical vertical_rays \<and>
   realPosition vertical_rays = Some \<lparr> px = NaN, py = NaN \<rparr> \<and>
   apparentPosition vertical_rays = \<lparr> px = Fin 400, py = Fin 200 \<rparr> \<and>
   apparentPosition (updateApparentFromReal vertical_rays) = \<lparr> px = NaN, py = NaN \<rparr>"
proof -
  have lock: "lockRealPosition vertical_rays"
    by (simp add: vertical_rays_def initial_state_def)
  have "apparentPosition (updateApparentFromReal vertical_rays) = \<lparr> px = NaN, py = NaN \<rparr>"
    using vertical_rays_no_tir lock
    by (simp add: updateApparentFromReal_def vertical_rays_realPosition waterLevelY_def Let_def
        num_sub_def airToWaterRad_def calculateRayPoint_def raySlope_def intersectRays_def
        vertical_rays_fields airIndex_def num_PI_def)
  with lock vertical_rays_no_tir vertical_rays_realPosition vertical_rays_fields(4)
  show ?thesis by simp
qed

section \<open>The critical angle and the refractive index\<close>

text \<open>
  C7 (amended). For every refractive index \<open>n >= 1\<close> the critical angle is \<open>asin(1/n)\<close>
  in degrees, an ordinary angle; at \<open>n = 1\<close> it is 90, and no side whose angle is below 90
  is flagged as total internal reflection. For every \<open>n\<close> strictly between \<open>-1\<close> and \<open>1\<close>
  it is \<open>NaN\<close>, and then neither side is flagged, whatever the angles are.
\<close>

theorem criticalAngle_cases:
  assumes "refractiveIndex s = Fin n"
  shows "(1 \<le> n \<longrightarrow> criticalAngle s = Fin (arcsin (1 / n) * 180 / pi)) \<and>
         (n = 1 \<longrightarrow>
            criticalAngle s = Fin 90 \<and>
            (\<forall>a. leftAngleDeg s = Fin a \<and> a < 90 \<longrightarrow> \<not> leftExceedsCritical s) \<and>
            (\<forall>b. rightAngleDeg s = Fin b \<and> b < 90 \<longrightarrow> \<not> rightExceedsCritical s)) \<and>
         (- 1 < n \<and> n < 1 \<longrightarrow>
            criticalAngle s = NaN \<and> \<not> leftExceedsCritical s \<and> \<not> rightExceedsCritical s)"
proof -
  have ge: "1 \<le> n \<longrightarrow> criticalAngle s = Fin (arcsin (1 / n) * 180 / pi)"
    using criticalAngle_ge_one [OF assms] by simp
  then have one: "n = 1 \<longrightarrow> criticalAngle s = Fin 90" by simp
  have lt: "- 1 < n \<and> n < 1 \<longrightarrow> criticalAngle s = NaN"
    using criticalAngle_lt_one [OF assms] by simp
  from ge one lt show ?thesis
    by (auto simp add: leftExceedsCritical_def rightExceedsCritical_def)
qed

theorem criticalAngle_cases_witness:
  "criticalAngle initial_state = Fin (arcsin (100 / 133) * 180 / pi) \<and>
   criticalAngle index_one = Fin 90 \<and>
   \<not> leftExceedsCritical index_one \<and> \<not> rightExceedsCritical index_one \<and>
   criticalAngle index_half = NaN \<and>
   \<not> leftExceedsCritical index_half \<and> \<not> rightExceedsCritical index_half"
  using criticalAngle_cases [of initial_state "133 / 100"]
    criticalAngle_cases [of index_one 1]
    criticalAngle_cases [of index_half "1 / 2"]
  by (simp add: initial_state_def index_one_def index_half_def)

theorem criticalAngle_index_one_counterexample:
  "refractiveIndex index_one = Fin 1 \<and> criticalAngle index_one = Fin 90"
  by (simp add: criticalAngle_def airIndex_def num_PI_def index_one_def initial_state_def)

section \<open>Dragging the apparent position\<close>

text \<open>
  C10. While the apparent position is dragged, a mouse move whose world position has
  \<open>y < waterLevelY\<close> becomes the new apparent position; every other mouse move (in
  particular every one with \<open>y >= waterLevelY\<close>) leaves the whole state, hence the
  apparent position and both angles, unchanged.
\<close>

theorem drag_apparent_guard:
  assumes "dragging s = Some ApparentPosition"
    and "w = screenToWorld s (num_sub (clientX e) (rect_left rect))
               (num_sub (clientY e) (rect_top rect))"
  shows "(num_lt (py w) waterLevelY \<longrightarrow> apparentPosition (handleMouseMove rect e s) = w) \<and>
         (\<not> num_lt (py w) waterLevelY \<longrightarrow> handleMouseMove rect e s = s) \<and>
         (num_ge (py w) waterLevelY \<longrightarrow> handleMouseMove rect e s = s)"
  using assms num_ge_not_lt [of "py w" waterLevelY]
  by (auto simp add: handleMouseMove_def Let_def updateAnglesFromPositions_def)

theorem drag_apparent_guard_witness:
  "dragging dragging_apparent = Some ApparentPosition \<and>
   handleMouseMove canvas_rect \<lparr> clientX = Fin 400, clientY = Fin 500 \<rparr> dragging_apparent
     = dragging_apparent \<and>
   apparentPosition
     (handleMouseMove canvas_rect \<lparr> clientX = Fin 300, clientY = Fin 100 \<rparr> dragging_apparent)
     = \<lparr> px = Fin 300, py = Fin 100 \<rparr>"
  using drag_apparent_guard [of dragging_apparent _ "\<lparr> clientX = Fin 400, clientY = Fin 500 \<rparr>" canvas_rect, OF _ refl]
    drag_apparent_guard [of dragging_apparent _ "\<lparr> clientX = Fin 300, clientY = Fin 100 \<rparr>" canvas_rect, OF _ refl]
  by (simp add: dragging_apparent_def initial_state_def canvas_rect_def screenToWorld_def
      num_sub_def waterLevelY_def)

section \<open>The refraction points stay on the interface\<close>

lemma updateAnglesFromPositions_points [simp]:
  "leftPoint (updateAnglesFromPositions s) = leftPoint s"
  "rightPoint (updateAnglesFromPositions s) = rightPoint s"
  by (simp_all add: updateAnglesFromPositions_def Let_def)

lemma updateAnglesFromRealPosition_points [simp]:
  "leftPoint (updateAnglesFromRealPosition p s) = leftPoint s"
  "rightPoint (updateAnglesFromRealPosition p s) = rightPoint s"
  by (simp_all add: updateAnglesFromRealPosition_def Let_def)

lemma updateApparentFromReal_points [simp]:
  "leftPoint (updateApparentFromReal s) = leftPoint s"
  "rightPoint (updateApparentFromReal s) = rightPoint s"
  by (simp_all add: updateApparentFromReal_def Let_def split: option.splits)

lemma handleMouseDown_points [simp]:
  "leftPoint (handleMouseDown rect e s) = leftPoint s"
  "rightPoint (handleMouseDown rect e s) = rightPoint s"
  by (simp_all add: handleMouseDown_def Let_def)

lemma handleMouseMove_on_interface:
  "on_interface s \<Longrightarrow> on_interface (handleMouseMove rect e s)"
  by (simp add: handleMouseMove_def on_interface_def Let_def
      split: option.splits drag_target.splits)

lemma watchers_on_interface:
  "on_interface s \<Longrightarrow> on_interface (angleWatcher s)"
  "on_interface s \<Longrightarrow> on_interface (refractiveIndexWatcher s)"
  "on_interface s \<Longrightarrow> on_interface (lockRealPositionWatcher s)"
  "on_interface s \<Longrightarrow> on_interface (onMounted s)"
  by (simp_all add: on_interface_def angleWatcher_def refractiveIndexWatcher_def
      lockRealPositionWatcher_def onMounted_def Let_def)

lemma step_on_interface: "on_interface s \<Longrightarrow> on_interface (step ev s)"
proof (cases ev)
  case (MouseDown rect e)
  assume "on_interface s"
  with MouseDown show ?thesis by (simp add: on_interface_def)
next
  case (MouseMove rect e)
  assume "on_interface s"
  with MouseMove show ?thesis by (simp add: handleMouseMove_on_interface)
next
  case MouseUp
  assume "on_interface s"
  with MouseUp show ?thesis by (simp add: on_interface_def handleMouseUp_def)
qed (simp_all add: watchers_on_interface, simp_all add: on_interface_def)

lemma run_on_interface: "on_interface s \<Longrightarrow> on_interface (run evs s)"
  by (induction evs arbitrary: s) (simp_all add: step_on_interface)

text \<open>
  C9. The state holds exactly two refraction points, \<open>leftPoint\<close> and \<open>rightPoint\<close>, and
  after every sequence of handler, input and watcher calls from the initial state (the
  empty sequence included) both have \<open>y = waterLevelY\<close>.
\<close>

theorem refraction_points_on_interface:
  "py (leftPoint (run evs initial_state)) = waterLevelY \<and>
   py (rightPoint (run evs initial_state)) = waterLevelY"
proof -
  have "on_interface initial_state"
    by (simp add: on_interface_def initial_state_def)
  then have "on_interface (run evs initial_state)"
    by (rule run_on_interface)
  then show ?thesis
    by (simp add: on_interface_def)
qed

section \<open>Snell's law\<close>

lemma deg_rad_deg [simp]: "a * 180 / pi * pi / 180 = (a::real)"
  by simp

lemma deg_lt_crit_sin:
  assumes "1 \<le> n" and "0 \<le> a" and "a < arcsin (1 / n) * 180 / pi"
  shows "n * sin (a * pi / 180) < 1" and "0 \<le> n * sin (a * pi / 180)"
proof -
  have n: "0 < n" "1 / n \<le> 1" "0 \<le> 1 / n" using assms by simp_all
  then have n': "- 1 \<le> 1 / n" by linarith
  have "a * pi < arcsin (1 / n) * 180"
    using assms(3) by (simp add: pos_less_divide_eq)
  then have lt: "a * pi / 180 < arcsin (1 / n)" by simp
  have ub: "arcsin (1 / n) \<le> pi / 2" using n n' by (intro arcsin_ubound) simp_all
  have lb: "0 \<le> a * pi / 180" using assms by simp
  have "sin (a * pi / 180) < sin (arcsin (1 / n))"
    by (rule sin_monotone_2pi) (use lt ub lb in simp_all)
  then have "sin (a * pi / 180) < 1 / n" using n n' by simp
  then show "n * sin (a * pi / 180) < 1" using n by (simp add: pos_less_divide_eq mult.commute)
  have "a * pi / 180 \<le> pi" using lt ub pi_ge_zero by linarith
  with lb have "0 \<le> sin (a * pi / 180)"
    by (rule sin_ge_zero)
  then show "0 \<le> n * sin (a * pi / 180)" using n by simp
qed

lemma waterToAirDeg_below:
  assumes "1 \<le> n" and "0 \<le> a" and "a < arcsin (1 / n) * 180 / pi"
  shows "waterToAirDeg (Fin n) (Fin a) = Fin (arcsin (n * sin (a * pi / 180)) * 180 / pi)"
    and "0 \<le> arcsin (n * sin (a * pi / 180)) * 180 / pi"
    and "arcsin (n * sin (a * pi / 180)) * 180 / pi < 90"
    and "sin (arcsin (n * sin (a * pi / 180)) * 180 / pi * pi / 180) = n * sin (a * pi / 180)"
proof -
  note b = deg_lt_crit_sin [OF assms]
  show "waterToAirDeg (Fin n) (Fin a) = Fin (arcsin (n * sin (a * pi / 180)) * 180 / pi)"
    using b by (simp add: waterToAirDeg_def Let_def airIndex_def num_PI_def)
  have "0 \<le> arcsin (n * sin (a * pi / 180))"
    using b by (intro arcsin_nonneg) simp
  then show "0 \<le> arcsin (n * sin (a * pi / 180)) * 180 / pi" by simp
  have "arcsin (n * sin (a * pi / 180)) < arcsin 1"
    using b by (intro arcsin_less_arcsin) simp_all
  then have "arcsin (n * sin (a * pi / 180)) < pi / 2" by simp
  then have "arcsin (n * sin (a * pi / 180)) * 180 < 90 * pi" by simp
  then show "arcsin (n * sin (a * pi / 180)) * 180 / pi < 90"
    by (simp add: pos_divide_less_eq)
  show "sin (arcsin (n * sin (a * pi / 180)) * 180 / pi * pi / 180) = n * sin (a * pi / 180)"
    using b by simp
qed

lemma airToWaterRad_fin:
  assumes "1 \<le> n"
  shows "airToWaterRad (Fin n) (Fin x) = Fin (arcsin (sin x / n))"
proof -
  have n: "0 < n" using assms by simp
  have "- n \<le> sin x"
    using sin_ge_minus_one [of x] assms by linarith
  then have lo: "- 1 \<le> sin x / n"
    using n by (simp add: pos_le_divide_eq)
  have "sin x \<le> n"
    using sin_le_one [of x] assms by linarith
  then have "sin x / n \<le> 1"
    using n by (simp add: pos_divide_le_eq)
  with lo have "- 1 \<le> sin x / n \<and> sin x / n \<le> 1" by simp
  with assms show ?thesis
    by (simp add: airToWaterRad_def airIndex_def)
qed

lemma round_trip_real:
  assumes "1 \<le> n" and "0 \<le> t" and "t < 90"
  shows "waterToAirDeg (Fin n) (Fin (arcsin (sin (t * pi / 180) / n) * 180 / pi)) = Fin t"
    and "arcsin (sin (t * pi / 180) / n) * 180 / pi < arcsin (1 / n) * 180 / pi"
proof -
  let ?x = "t * pi / 180"
  let ?w = "arcsin (sin ?x / n)"
  have n: "0 < n" using assms by simp
  have x: "0 \<le> ?x" "?x < pi / 2" using assms by simp_all
  have s0: "0 \<le> sin ?x"
    by (rule sin_ge_zero) (use x pi_ge_zero in linarith)+
  have s1: "sin ?x < 1"
  proof -
    have "- (pi / 2) \<le> ?x" using x(1) pi_ge_zero by linarith
    then have "sin ?x < sin (pi / 2)"
      using x(2) by (rule sin_monotone_2pi) simp
    then show ?thesis by simp
  qed
  have q0: "0 \<le> sin ?x / n" using s0 n by simp
  have q1: "sin ?x / n < 1 / n" using s1 n by (simp add: divide_strict_right_mono)
  have q2: "1 / n \<le> 1" using assms by simp
  have wlt: "?w < arcsin (1 / n)"
    by (rule arcsin_less_arcsin) (use q0 q1 q2 in linarith)+
  then show lt: "?w * 180 / pi < arcsin (1 / n) * 180 / pi"
    by (simp add: divide_strict_right_mono)
  have w0: "0 \<le> ?w"
    by (rule arcsin_nonneg) (use q0 q1 q2 in simp)
  then have w0': "0 \<le> ?w * 180 / pi" by simp
  have sw: "sin ?w = sin ?x / n"
    by (rule sin_arcsin) (use q0 q1 q2 in linarith)+
  have "waterToAirDeg (Fin n) (Fin (?w * 180 / pi))
        = Fin (arcsin (n * sin (?w * 180 / pi * pi / 180)) * 180 / pi)"
    using assms(1) w0' lt by (rule waterToAirDeg_below(1))
  also have "n * sin (?w * 180 / pi * pi / 180) = sin ?x"
    using n by (simp add: sw)
  also have "arcsin (sin ?x) = ?x"
    by (rule arcsin_sin) (use x in linarith)+
  also have "?x * 180 / pi = t" by simp
  finally show "waterToAirDeg (Fin n) (Fin (?w * 180 / pi)) = Fin t" .
qed

lemma critical_le_90:
  assumes "1 \<le> n"
  shows "arcsin (1 / n) * 180 / pi \<le> 90"
proof -
  have "0 \<le> 1 / n" "1 / n \<le> 1" using assms by simp_all
  then have "arcsin (1 / n) \<le> pi / 2"
    by (intro arcsin_ubound) linarith+
  then have "arcsin (1 / n) * 180 \<le> 90 * pi" by simp
  then show ?thesis by (simp add: pos_divide_le_eq)
qed

section \<open>Numeric bounds\<close>

lemma fact9: "(fact 9 :: real) = 362880"
  by (simp add: fact_numeral)

lemma sin_sum9:
  fixes x :: real
  shows "(\<Sum>m<9. sin_coeff m * x ^ m) = x - x ^ 3 / 6 + x ^ 5 / 120 - x ^ 7 / 5040"
  by (simp add: lessThan_nat_numeral lessThan_Suc sin_coeff_def fact_numeral)

lemma sin_taylor9:
  fixes x :: real
  shows "\<bar>sin x - (x - x ^ 3 / 6 + x ^ 5 / 120 - x ^ 7 / 5040)\<bar> \<le> \<bar>x\<bar> ^ 9 / 362880"
proof -
  have "\<bar>sin x - (x - x ^ 3 / 6 + x ^ 5 / 120 - x ^ 7 / 5040)\<bar>
        \<le> inverse (fact 9) * \<bar>x\<bar> ^ 9"
    using Maclaurin_sin_bound [of x 9] unfolding sin_sum9 .
  also have "inverse (fact 9) * \<bar>x\<bar> ^ 9 = \<bar>x\<bar> ^ 9 / 362880"
    unfolding fact9 by simp
  finally show ?thesis .
qed

lemma sin_upper9:
  fixes x :: real
  assumes "0 \<le> x"
  shows "sin x \<le> x - x ^ 3 / 6 + x ^ 5 / 120 - x ^ 7 / 5040 + x ^ 9 / 362880"
proof -
  have "\<bar>x\<bar> ^ 9 = x ^ 9" using assms by simp
  with sin_taylor9 [of x]
  have "\<bar>sin x - (x - x ^ 3 / 6 + x ^ 5 / 120 - x ^ 7 / 5040)\<bar> \<le> x ^ 9 / 362880"
    by simp
  then show ?thesis by linarith
qed

lemma sin_lower9:
  fixes x :: real
  assumes "0 \<le> x"
  shows "x - x ^ 3 / 6 + x ^ 5 / 120 - x ^ 7 / 5040 - x ^ 9 / 362880 \<le> sin x"
proof -
  have "\<bar>x\<bar> ^ 9 = x ^ 9" using assms by simp
  with sin_taylor9 [of x]
  have "\<bar>sin x - (x - x ^ 3 / 6 + x ^ 5 / 120 - x ^ 7 / 5040)\<bar> \<le> x ^ 9 / 362880"
    by simp
  then show ?thesis by linarith
qed

lemma pi_upper: "pi < 31416 / 10000"
proof (rule ccontr)
  assume "\<not> pi < 31416 / 10000"
  then have le: "(1309 / 2500 :: real) \<le> pi / 6" by simp
  have "sin (1309 / 2500 :: real) \<le> sin (pi / 6)"
    by (rule sin_monotone_2pi_le) (use le pi_ge_zero in simp_all)
  then have "sin (1309 / 2500 :: real) \<le> 1 / 2" by (simp add: sin_30)
  moreover have "1 / 2 < sin (1309 / 2500 :: real)"
  proof -
    have "(1 / 2 :: real) < 1309 / 2500 - (1309 / 2500) ^ 3 / 6 + (1309 / 2500) ^ 5 / 120
          - (1309 / 2500) ^ 7 / 5040 - (1309 / 2500) ^ 9 / 362880"
      by (simp add: power_divide)
    also have "\<dots> \<le> sin (1309 / 2500 :: real)"
      by (rule sin_lower9) simp
    finally show ?thesis .
  qed
  ultimately show False by simp
qed

lemma pi_lower: "31415 / 10000 < pi"
proof (rule ccontr)
  assume "\<not> 31415 / 10000 < pi"
  then have le: "pi / 6 \<le> (6283 / 12000 :: real)" by simp
  have "sin (pi / 6) \<le> sin (6283 / 12000 :: real)"
    by (rule sin_monotone_2pi_le) (use le pi_ge_two in simp_all)
  then have "1 / 2 \<le> sin (6283 / 12000 :: real)" by (simp add: sin_30)
  moreover have "sin (6283 / 12000 :: real) < 1 / 2"
  proof -
    have "sin (6283 / 12000 :: real) \<le> 6283 / 12000 - (6283 / 12000) ^ 3 / 6
          + (6283 / 12000) ^ 5 / 120 - (6283 / 12000) ^ 7 / 5040 + (6283 / 12000) ^ 9 / 362880"
      by (rule sin_upper9) simp
    also have "\<dots> < 1 / 2"
      by (simp add: power_divide)
    finally show ?thesis .
  qed
  ultimately show False by simp
qed

lemma sin_deg_upper:
  fixes A y xu :: real
  assumes "0 \<le> A" and "A \<le> 60" and "xu = A * (31416 / 10000) / 180"
    and "xu - xu ^ 3 / 6 + xu ^ 5 / 120 - xu ^ 7 / 5040 + xu ^ 9 / 362880 < y"
  shows "sin (A * pi / 180) < y"
proof -
  have "A * pi \<le> A * (31416 / 10000)"
    using pi_upper assms(1) by (intro mult_left_mono) simp_all
  then have a: "A * pi / 180 \<le> xu"
    by (simp add: assms(3))
  have "xu \<le> 60 * (31416 / 10000) / 180"
    using assms(2) by (simp add: assms(3))
  also have "\<dots> \<le> pi / 2" using pi_lower by simp
  finally have b: "xu \<le> pi / 2" .
  have c: "0 \<le> A * pi / 180" using assms(1) by simp
  then have d: "- (pi / 2) \<le> A * pi / 180" using pi_ge_zero by linarith
  have "sin (A * pi / 180) \<le> sin xu"
    using d a b by (rule sin_monotone_2pi_le)
  also have "sin xu \<le> xu - xu ^ 3 / 6 + xu ^ 5 / 120 - xu ^ 7 / 5040 + xu ^ 9 / 362880"
    by (rule sin_upper9) (use a c in linarith)
  also note assms(4)
  finally show ?thesis .
qed

lemma sin_deg_lower:
  fixes A y xl :: real
  assumes "0 \<le> A" and "A \<le> 90" and "xl = A * (31415 / 10000) / 180"
    and "y < xl - xl ^ 3 / 6 + xl ^ 5 / 120 - xl ^ 7 / 5040 - xl ^ 9 / 362880"
  shows "y < sin (A * pi / 180)"
proof -
  have "A * (31415 / 10000) \<le> A * pi"
    using pi_lower assms(1) by (intro mult_left_mono) simp_all
  then have a: "xl \<le> A * pi / 180"
    by (simp add: assms(3))
  have "A * pi \<le> 90 * pi"
    using assms(2) by (intro mult_right_mono) simp_all
  then have b: "A * pi / 180 \<le> pi / 2" by simp
  have c: "0 \<le> xl" using assms(1) by (simp add: assms(3))
  then have d: "- (pi / 2) \<le> xl" using pi_ge_zero by linarith
  note assms(4)
  also have "xl - xl ^ 3 / 6 + xl ^ 5 / 120 - xl ^ 7 / 5040 - xl ^ 9 / 362880 \<le> sin xl"
    using c by (rule sin_lower9)
  also have "sin xl \<le> sin (A * pi / 180)"
    using d a b by (rule sin_monotone_2pi_le)
  finally show ?thesis .
qed

lemma arcsin_deg_lower:
  fixes A y :: real
  assumes "0 \<le> A" and "A \<le> 90" and "y \<le> 1" and "sin (A * pi / 180) < y"
  shows "A < arcsin y * 180 / pi"
proof -
  have "0 \<le> A * pi" using assms(1) by simp
  moreover have "A * pi \<le> 90 * pi"
    using assms(2) by (intro mult_right_mono) simp_all
  ultimately have r: "- (pi / 2) \<le> A * pi / 180" "A * pi / 180 \<le> pi / 2"
    using pi_ge_zero by linarith+
  have "arcsin (sin (A * pi / 180)) < arcsin y"
    by (rule arcsin_less_arcsin) (use assms in simp_all)
  then have "A * pi / 180 < arcsin y"
    using r by (simp add: arcsin_sin)
  then have "A * pi < arcsin y * 180" by simp
  then show ?thesis by (simp add: pos_less_divide_eq)
qed

lemma arcsin_deg_upper:
  fixes B y :: real
  assumes "0 \<le> B" and "B \<le> 90" and "- 1 \<le> y" and "y < sin (B * pi / 180)"
  shows "arcsin y * 180 / pi < B"
proof -
  have "0 \<le> B * pi" using assms(1) by simp
  moreover have "B * pi \<le> 90 * pi"
    using assms(2) by (intro mult_right_mono) simp_all
  ultimately have r: "- (pi / 2) \<le> B * pi / 180" "B * pi / 180 \<le> pi / 2"
    using pi_ge_zero by linarith+
  have "arcsin y < arcsin (sin (B * pi / 180))"
    by (rule arcsin_less_arcsin) (use assms in simp_all)
  then have "arcsin y < B * pi / 180"
    using r by (simp add: arcsin_sin)
  then have "arcsin y * 180 < B * pi" by simp
  then show ?thesis by (simp add: pos_divide_less_eq)
qed

lemma critical_angle_133_tight:
  "4875 / 100 < arcsin (100 / 133 :: real) * 180 / pi"
  "arcsin (100 / 133 :: real) * 180 / pi < 4876 / 100"
proof -
  have "sin (4875 / 100 * pi / 180) < (100 / 133 :: real)"
    by (rule sin_deg_upper [where xu = "17017 / 20000"]) (simp_all add: power_divide)
  then show "4875 / 100 < arcsin (100 / 133 :: real) * 180 / pi"
    by (intro arcsin_deg_lower) simp_all
  have "(100 / 133 :: real) < sin (4876 / 100 * pi / 180)"
    by (rule sin_deg_lower [where xl = "7658977 / 9000000"]) (simp_all add: power_divide)
  then show "arcsin (100 / 133 :: real) * 180 / pi < 4876 / 100"
    by (intro arcsin_deg_upper) simp_all
qed

lemma refracted_30_tight:
  "4168 / 100 < arcsin (133 / 200 :: real) * 180 / pi"
  "arcsin (133 / 200 :: real) * 180 / pi < 4169 / 100"
proof -
  have "sin (4168 / 100 * pi / 180) < (133 / 200 :: real)"
    by (rule sin_deg_upper [where xu = "681989 / 937500"]) (simp_all add: power_divide)
  then show "4168 / 100 < arcsin (133 / 200 :: real) * 180 / pi"
    by (intro arcsin_deg_lower) simp_all
  have "(133 / 200 :: real) < sin (4169 / 100 * pi / 180)"
    by (rule sin_deg_lower [where xl = "26193827 / 36000000"]) (simp_all add: power_divide)
  then show "arcsin (133 / 200 :: real) * 180 / pi < 4169 / 100"
    by (intro arcsin_deg_upper) simp_all
qed

section \<open>Rays and their intersection\<close>

lemma deg_in_quadrant:
  assumes "0 < d" and "d < 90"
  shows "0 < d * pi / 180" and "d * pi / 180 < pi / 2"
proof -
  show "0 < d * pi / 180" using assms(1) by simp
  have "d * pi < 90 * pi" using assms(2) by (intro mult_strict_right_mono) simp_all
  then show "d * pi / 180 < pi / 2" by simp
qed

lemma sin_cos_deg_pos:
  assumes "0 < d" and "d < 90"
  shows "0 < sin (d * pi / 180)" and "0 < cos (d * pi / 180)" and "0 < cot_deg d"
proof -
  note q = deg_in_quadrant [OF assms]
  show s: "0 < sin (d * pi / 180)" using q by (rule sin_gt_zero2)
  show c: "0 < cos (d * pi / 180)" using q by (rule cos_gt_zero)
  from s c show "0 < cot_deg d" by (simp add: cot_deg_def)
qed

lemma raySlope_fin:
  assumes "0 < d" and "d < 90"
  shows "raySlope (calculateRayPoint \<lparr> px = Fin x, py = Fin y \<rparr> (Fin d) (Fin 1000) isLeft)
           \<lparr> px = Fin x, py = Fin y \<rparr> = Fin (side_sign isLeft * cot_deg d)"
  using sin_cos_deg_pos(1) [OF assms]
  by (simp add: raySlope_def calculateRayPoint_def Let_def num_sub_def num_PI_def side_sign_def
      cot_deg_def)

lemma intersectRays_fin:
  assumes "m1 \<noteq> m2"
  shows "intersectRays \<lparr> px = Fin lx, py = Fin w \<rparr> (Fin m1) \<lparr> px = Fin rx, py = Fin w \<rparr> (Fin m2)
         = \<lparr> px = Fin (meet_x lx m1 rx m2), py = Fin (m1 * (meet_x lx m1 rx m2 - lx) + w) \<rparr>"
  using assms by (simp add: intersectRays_def Let_def num_sub_def meet_x_def)

lemma meet_x_both:
  assumes "m1 \<noteq> m2"
  shows "m1 * (meet_x lx m1 rx m2 - lx) = m2 * (meet_x lx m1 rx m2 - rx)"
  using assms by (simp add: meet_x_def field_simps)

lemma meet_x_symmetric:
  assumes "c \<noteq> 0"
  shows "meet_x lx (- c) rx c = (lx + rx) / 2" and "meet_x lx c rx (- c) = (lx + rx) / 2"
  using assms by (simp_all add: meet_x_def field_simps)

lemma refracted_deg_range:
  assumes "1 \<le> n" and "0 < a" and "a < arcsin (1 / n) * 180 / pi"
  shows "waterToAirDeg (Fin n) (Fin a) = Fin (refracted_deg n a)"
    and "0 < refracted_deg n a" and "refracted_deg n a < 90"
    and "sin (refracted_deg n a * pi / 180) = n * sin (a * pi / 180)"
proof -
  have a0: "0 \<le> a" using assms(2) by simp
  note w = waterToAirDeg_below [OF assms(1) a0 assms(3)]
  show "waterToAirDeg (Fin n) (Fin a) = Fin (refracted_deg n a)"
    using w(1) by (simp add: refracted_deg_def)
  show "refracted_deg n a < 90" using w(3) by (simp add: refracted_deg_def)
  show "sin (refracted_deg n a * pi / 180) = n * sin (a * pi / 180)"
    using w(4) by (simp add: refracted_deg_def)
  have "a < 90" using assms(3) critical_le_90 [OF assms(1)] by linarith
  then have "0 < sin (a * pi / 180)" using assms(2) by (intro sin_cos_deg_pos(1))
  then have p: "0 < n * sin (a * pi / 180)" using assms(1) by simp
  have "arcsin 0 < arcsin (n * sin (a * pi / 180))"
    using p deg_lt_crit_sin(1) [OF assms(1) a0 assms(3)]
    by (intro arcsin_less_arcsin) simp_all
  then show "0 < refracted_deg n a" by (simp add: refracted_deg_def)
qed

lemma realSlopes_fin:
  assumes "refractiveIndex s = Fin n" and "1 \<le> n"
    and "leftPoint s = \<lparr> px = Fin lx, py = Fin ly \<rparr>"
    and "rightPoint s = \<lparr> px = Fin rx, py = Fin ry \<rparr>"
    and "leftAngleDeg s = Fin a" and "0 < a" and "a < arcsin (1 / n) * 180 / pi"
    and "rightAngleDeg s = Fin b" and "0 < b" and "b < arcsin (1 / n) * 180 / pi"
  shows "\<not> leftExceedsCritical s" and "\<not> rightExceedsCritical s"
    and "realLeftSlope s = Fin (side_sign (num_lt (px (apparentPosition s)) (Fin lx))
                                 * cot_deg (refracted_deg n a))"
    and "realRightSlope s = Fin (side_sign (num_lt (px (apparentPosition s)) (Fin rx))
                                  * cot_deg (refracted_deg n b))"
proof -
  have c: "criticalAngle s = Fin (arcsin (1 / n) * 180 / pi)"
    using assms(1,2) by (rule criticalAngle_ge_one)
  show l: "\<not> leftExceedsCritical s"
    using assms(7) by (simp add: leftExceedsCritical_def c assms(5))
  show r: "\<not> rightExceedsCritical s"
    using assms(10) by (simp add: rightExceedsCritical_def c assms(8))
  note ra = refracted_deg_range [OF assms(2,6,7)]
  note rb = refracted_deg_range [OF assms(2,9,10)]
  show "realLeftSlope s = Fin (side_sign (num_lt (px (apparentPosition s)) (Fin lx))
                                 * cot_deg (refracted_deg n a))"
    using l by (simp add: realLeftSlope_def leftRefractedAngle_def assms(1,3,5) ra(1)
        raySlope_fin [OF ra(2,3)])
  show "realRightSlope s = Fin (side_sign (num_lt (px (apparentPosition s)) (Fin rx))
                                  * cot_deg (refracted_deg n b))"
    using r by (simp add: realRightSlope_def rightRefractedAngle_def assms(1,4,8) rb(1)
        raySlope_fin [OF rb(2,3)])
qed

lemma realPosition_symmetric:
  assumes "refractiveIndex s = Fin n" and "1 \<le> n"
    and "leftPoint s = \<lparr> px = Fin lx, py = waterLevelY \<rparr>"
    and "rightPoint s = \<lparr> px = Fin rx, py = waterLevelY \<rparr>"
    and "lx \<noteq> rx"
    and "px (apparentPosition s) = Fin ((lx + rx) / 2)"
    and "leftAngleDeg s = Fin a" and "rightAngleDeg s = Fin a"
    and "0 < a" and "a < arcsin (1 / n) * 180 / pi"
  shows "realPosition s =
           Some \<lparr> px = Fin ((lx + rx) / 2),
                  py = Fin (450 - \<bar>rx - lx\<bar> / 2 * cot_deg (refracted_deg n a)) \<rparr>"
proof -
  let ?c = "cot_deg (refracted_deg n a)"
  have pts: "leftPoint s = \<lparr> px = Fin lx, py = Fin 450 \<rparr>"
    "rightPoint s = \<lparr> px = Fin rx, py = Fin 450 \<rparr>"
    using assms(3,4) by (simp_all add: waterLevelY_def)
  note sl = realSlopes_fin [OF assms(1,2) pts assms(7,9,10) assms(8,9,10)]
  note r = refracted_deg_range [OF assms(2,9,10)]
  have c: "0 < ?c" using r(2,3) by (rule sin_cos_deg_pos(3))
  then have c0: "?c \<noteq> 0" "- ?c \<noteq> ?c" "?c \<noteq> - ?c" by simp_all
  show ?thesis
  proof (cases "lx < rx")
    case True
    then have "realLeftSlope s = Fin (- ?c)" "realRightSlope s = Fin ?c"
      using sl(3,4) by (simp_all add: assms(6) side_sign_def)
    then show ?thesis
      using sl(1,2) True c0
      by (simp add: realPosition_def pts intersectRays_fin meet_x_symmetric [OF c0(1)])
  next
    case False
    with assms(5) have lt: "rx < lx" by simp
    then have "realLeftSlope s = Fin ?c" "realRightSlope s = Fin (- ?c)"
      using sl(3,4) by (simp_all add: assms(6) side_sign_def)
    then show ?thesis
      using sl(1,2) lt c0
      by (simp add: realPosition_def pts intersectRays_fin meet_x_symmetric [OF c0(1)])
        (simp add: field_simps)
  qed
qed

lemma refracted_deg_133_30: "refracted_deg (133 / 100) 30 = arcsin (133 / 200) * 180 / pi"
proof -
  have "(30 * pi / 180 :: real) = pi / 6" by simp
  then show ?thesis by (simp add: refracted_deg_def sin_30)
qed

text \<open>
  With both points on the same side and equal angles the two slopes are equal: a point
  is returned, and its coordinates are not finite.
\<close>

theorem realPosition_null_or_point_witness:
  "realPosition same_side_rays \<noteq> None \<and>
   realLeftSlope same_side_rays = realRightSlope same_side_rays \<and>
   (\<exists>p. realPosition same_side_rays = Some p \<and> \<not> is_finite (px p) \<and> \<not> is_finite (py p))"
proof -
  have n: "(1::real) \<le> 133 / 100" "(0::real) < 30"
    "(30::real) < arcsin (1 / (133 / 100)) * 180 / pi"
    using criticalAngle_133_bounds by simp_all
  note sl = realSlopes_fin [OF same_side_rays_fields(1) n(1) same_side_rays_fields(2,3,5) n(2,3)
      same_side_rays_fields(6) n(2,3)]
  have eq: "realLeftSlope same_side_rays = realRightSlope same_side_rays"
    using sl(3,4) by (simp add: same_side_rays_fields)
  from realPosition_null_or_point [of same_side_rays] sl(1,2) eq
  show ?thesis by auto
qed

section \<open>The symmetric scenario\<close>

lemma symmetric_rays_fields:
  "refractiveIndex symmetric_rays = Fin (133 / 100)"
  "leftPoint symmetric_rays = \<lparr> px = Fin 100, py = waterLevelY \<rparr>"
  "rightPoint symmetric_rays = \<lparr> px = Fin 500, py = waterLevelY \<rparr>"
  "px (apparentPosition symmetric_rays) = Fin ((100 + 500) / 2)"
  "leftAngleDeg symmetric_rays = Fin 20"
  "rightAngleDeg symmetric_rays = Fin 20"
  by (simp_all add: symmetric_rays_def initial_state_def)

lemma scenario_initial:
  "criticalAngle initial_state = Fin (arcsin (100 / 133) * 180 / pi)"
  "leftRefractedAngle initial_state = Fin (arcsin (133 / 200) * 180 / pi)"
  "rightRefractedAngle initial_state = Fin (arcsin (133 / 200) * 180 / pi)"
  "realPosition initial_state =
     Some \<lparr> px = Fin 400, py = Fin (450 - 150 * cot_deg (arcsin (133 / 200) * 180 / pi)) \<rparr>"
  "0 < cot_deg (arcsin (133 / 200) * 180 / pi)"
proof -
  have n: "(1::real) \<le> 133 / 100" "(0::real) < 30"
    "(30::real) < arcsin (1 / (133 / 100)) * 180 / pi" "(250::real) \<noteq> 550"
    using criticalAngle_133_bounds by simp_all
  have pts: "leftPoint initial_state = \<lparr> px = Fin 250, py = waterLevelY \<rparr>"
    "rightPoint initial_state = \<lparr> px = Fin 550, py = waterLevelY \<rparr>"
    "px (apparentPosition initial_state) = Fin ((250 + 550) / 2)"
    by (simp_all add: initial_state_def)
  show c: "criticalAngle initial_state = Fin (arcsin (100 / 133) * 180 / pi)"
    by (rule criticalAngle_133) (rule initial_state_fields)
  note r = refracted_deg_range [OF n(1,2,3)]
  have nt: "\<not> leftExceedsCritical initial_state" "\<not> rightExceedsCritical initial_state"
    using criticalAngle_133_bounds
    by (simp_all add: leftExceedsCritical_def rightExceedsCritical_def c initial_state_fields)
  show "leftRefractedAngle initial_state = Fin (arcsin (133 / 200) * 180 / pi)"
    using nt r(1) by (simp add: leftRefractedAngle_def initial_state_fields refracted_deg_133_30)
  show "rightRefractedAngle initial_state = Fin (arcsin (133 / 200) * 180 / pi)"
    using nt r(1) by (simp add: rightRefractedAngle_def initial_state_fields refracted_deg_133_30)
  show "realPosition initial_state =
     Some \<lparr> px = Fin 400, py = Fin (450 - 150 * cot_deg (arcsin (133 / 200) * 180 / pi)) \<rparr>"
    using realPosition_symmetric [OF initial_state_fields(1) n(1) pts(1,2) n(4) pts(3)
        initial_state_fields(5,6) n(2,3)]
    by (simp add: refracted_deg_133_30)
  show "0 < cot_deg (arcsin (133 / 200) * 180 / pi)"
    using sin_cos_deg_pos(3) [OF r(2,3)] by (simp add: refracted_deg_133_30)
qed

text \<open>
  C4 (amended). With \<open>n = 1.33\<close>, refraction points at \<open>x = 250\<close> and \<open>x = 550\<close>
  (\<open>y = 450\<close>), the apparent position at \<open>x = 400\<close> and both angles 30 degrees: the critical
  angle lies between 48.75 and 48.76 degrees, both refracted angles lie between 41.68 and
  41.69 degrees, and \<open>realPosition\<close> is a point with \<open>x = 400\<close> and \<open>y < 450\<close>. More
  generally, for \<open>n >= 1\<close>, two distinct refraction points on the interface, the apparent
  position centred between them and both angles equal, positive and below the critical
  angle, \<open>realPosition\<close> is a point whose \<open>x\<close> is the midpoint of the two refraction points
  and whose \<open>y\<close> is below \<open>450\<close>.
\<close>

theorem symmetric_real_position:
  assumes "refractiveIndex s = Fin n" and "1 \<le> n"
    and "leftPoint s = \<lparr> px = Fin lx, py = waterLevelY \<rparr>"
    and "rightPoint s = \<lparr> px = Fin rx, py = waterLevelY \<rparr>"
    and "lx \<noteq> rx"
    and "px (apparentPosition s) = Fin ((lx + rx) / 2)"
    and "leftAngleDeg s = Fin a" and "rightAngleDeg s = Fin a"
    and "0 < a" and "num_lt (Fin a) (criticalAngle s)"
  shows "(\<exists>c r y. criticalAngle initial_state = Fin c \<and> 4875 / 100 < c \<and> c < 4876 / 100 \<and>
            leftRefractedAngle initial_state = Fin r \<and>
            rightRefractedAngle initial_state = Fin r \<and> 4168 / 100 < r \<and> r < 4169 / 100 \<and>
            realPosition initial_state = Some \<lparr> px = Fin 400, py = Fin y \<rparr> \<and> y < 450) \<and>
         (\<exists>y. realPosition s = Some \<lparr> px = Fin ((lx + rx) / 2), py = Fin y \<rparr> \<and> y < 450)"
proof -
  have "450 - 150 * cot_deg (arcsin (133 / 200) * 180 / pi) < 450"
    using scenario_initial(5) by simp
  with scenario_initial(1-4) critical_angle_133_tight refracted_30_tight
  have A: "\<exists>c r y. criticalAngle initial_state = Fin c \<and> 4875 / 100 < c \<and> c < 4876 / 100 \<and>
            leftRefractedAngle initial_state = Fin r \<and>
            rightRefractedAngle initial_state = Fin r \<and> 4168 / 100 < r \<and> r < 4169 / 100 \<and>
            realPosition initial_state = Some \<lparr> px = Fin 400, py = Fin y \<rparr> \<and> y < 450"
    by blast
  have c: "criticalAngle s = Fin (arcsin (1 / n) * 180 / pi)"
    using assms(1,2) by (rule criticalAngle_ge_one)
  with assms(10) have a: "a < arcsin (1 / n) * 180 / pi" by simp
  note rp = realPosition_symmetric [OF assms(1-8) assms(9) a]
  note r = refracted_deg_range [OF assms(2,9) a]
  have "0 < \<bar>rx - lx\<bar> / 2 * cot_deg (refracted_deg n a)"
    using sin_cos_deg_pos(3) [OF r(2,3)] assms(5) by simp
  then have "450 - \<bar>rx - lx\<bar> / 2 * cot_deg (refracted_deg n a) < 450" by simp
  with rp have B: "\<exists>y. realPosition s = Some \<lparr> px = Fin ((lx + rx) / 2), py = Fin y \<rparr> \<and> y < 450"
    by blast
  from A B show ?thesis by (rule conjI)
qed

theorem symmetric_real_position_witness:
  "num_lt (Fin 20) (criticalAngle symmetric_rays) \<and>
   (\<exists>y. realPosition symmetric_rays = Some \<lparr> px = Fin 300, py = Fin y \<rparr> \<and> y < 450)"
proof -
  have lt: "num_lt (Fin 20) (criticalAngle symmetric_rays)"
    using criticalAngle_133_bounds
    by (simp add: criticalAngle_133 symmetric_rays_fields)
  have n: "(1::real) \<le> 133 / 100" "(100::real) \<noteq> 500" "(0::real) < 20"
    by simp_all
  from symmetric_real_position [OF symmetric_rays_fields(1) n(1) symmetric_rays_fields(2,3) n(2)
      symmetric_rays_fields(4,5,6) n(3) lt] lt
  show ?thesis by simp
qed

theorem refracted_angle_counterexample:
  "leftRefractedAngle initial_state = Fin (arcsin (133 / 200) * 180 / pi) \<and>
   rightRefractedAngle initial_state = Fin (arcsin (133 / 200) * 180 / pi) \<and>
   411 / 10 + 1 / 2 < arcsin (133 / 200 :: real) * 180 / pi"
  using scenario_initial(2,3) refracted_30_tight(1) by simp

section \<open>Angle, apparent position and angle again\<close>

lemma abs_arctan: "\<bar>arctan t\<bar> = arctan \<bar>t\<bar>"
proof (cases "0 \<le> t")
  case True
  then show ?thesis by simp
next
  case False
  then have "t < 0" by simp
  then show ?thesis by (simp add: arctan_minus [symmetric])
qed

lemma tan_deg:
  assumes "0 < d" and "d < 90"
  shows "arctan (1 / cot_deg d) = d * pi / 180"
proof -
  note q = deg_in_quadrant [OF assms]
  have "1 / cot_deg d = tan (d * pi / 180)"
    by (simp add: cot_deg_def tan_def)
  moreover have "arctan (tan (d * pi / 180)) = d * pi / 180"
    by (rule arctan_tan) (use q in linarith)+
  ultimately show ?thesis by simp
qed

lemma atan2_recover:
  assumes "0 < d" and "d < 90" and "dy = m * dx" and "\<bar>m\<bar> = cot_deg d" and "dy < 0"
  shows "atan2_real \<bar>dx\<bar> \<bar>dy\<bar> = d * pi / 180"
    and "\<bar>atan2_real dx (- dy)\<bar> = d * pi / 180"
proof -
  have c: "0 < cot_deg d" using assms(1,2) by (rule sin_cos_deg_pos(3))
  have ady: "\<bar>dy\<bar> = cot_deg d * \<bar>dx\<bar>"
    using assms(3,4) by (simp add: abs_mult)
  have dy0: "0 < \<bar>dy\<bar>" using assms(5) by simp
  with ady c have dx0: "0 < \<bar>dx\<bar>"
    by (simp add: zero_less_mult_iff)
  have q: "\<bar>dx\<bar> / \<bar>dy\<bar> = 1 / cot_deg d"
    using dx0 c by (simp add: ady)
  show "atan2_real \<bar>dx\<bar> \<bar>dy\<bar> = d * pi / 180"
    using dy0 by (simp only: atan2_real_def if_True q tan_deg [OF assms(1,2)])
  have "atan2_real dx (- dy) = arctan (dx / (- dy))"
    using assms(5) by (simp add: atan2_real_def)
  then have "\<bar>atan2_real dx (- dy)\<bar> = arctan \<bar>dx / (- dy)\<bar>"
    by (simp only: abs_arctan)
  also have "\<bar>dx / (- dy)\<bar> = \<bar>dx\<bar> / \<bar>dy\<bar>" by simp
  finally show "\<bar>atan2_real dx (- dy)\<bar> = d * pi / 180"
    by (simp only: q tan_deg [OF assms(1,2)])
qed

lemma intersectRays_fin_result:
  assumes "intersectRays \<lparr> px = Fin lx, py = Fin w \<rparr> (Fin m1) \<lparr> px = Fin rx, py = Fin w \<rparr> (Fin m2)
           = \<lparr> px = Fin X, py = Fin Y \<rparr>"
  shows "Y - w = m1 * (X - lx)" and "Y - w = m2 * (X - rx)"
proof -
  have ne: "m1 \<noteq> m2"
  proof
    assume "m1 = m2"
    with intersectRays_parallel [of "\<lparr> px = Fin lx, py = Fin w \<rparr>" "Fin m1"
        "\<lparr> px = Fin rx, py = Fin w \<rparr>"] assms
    show False by simp
  qed
  have "\<lparr> px = Fin X, py = Fin Y \<rparr>
        = \<lparr> px = Fin (meet_x lx m1 rx m2), py = Fin (m1 * (meet_x lx m1 rx m2 - lx) + w) \<rparr>"
    using assms intersectRays_fin [OF ne, of lx w rx] by (rule trans [OF sym])
  then have X: "X = meet_x lx m1 rx m2" and Y: "Y = m1 * (meet_x lx m1 rx m2 - lx) + w"
    by simp_all
  show "Y - w = m1 * (X - lx)" using X Y by simp
  then show "Y - w = m2 * (X - rx)" using meet_x_both [OF ne, of lx rx] X by simp
qed

lemma water_angle_back:
  assumes "1 \<le> n" and "0 < a" and "a < arcsin (1 / n) * 180 / pi"
  shows "num_div (num_mul (airToWaterRad (Fin n) (Fin (refracted_deg n a * pi / 180))) (Fin 180))
           num_PI = Fin a"
proof -
  note r = refracted_deg_range [OF assms]
  have n: "0 < n" using assms(1) by simp
  have a90: "a < 90" using assms(3) critical_le_90 [OF assms(1)] by linarith
  note q = deg_in_quadrant [OF assms(2) a90]
  have "sin (refracted_deg n a * pi / 180) / n = sin (a * pi / 180)"
    using n by (simp add: r(4))
  moreover have "arcsin (sin (a * pi / 180)) = a * pi / 180"
    by (rule arcsin_sin) (use q in linarith)+
  ultimately show ?thesis
    by (simp add: airToWaterRad_fin [OF assms(1)] num_PI_def)
qed

lemma realPosition_no_tir:
  assumes "realPosition s = Some p"
  shows "\<not> leftExceedsCritical s" and "\<not> rightExceedsCritical s"
    and "p = intersectRays (leftPoint s) (realLeftSlope s) (rightPoint s) (realRightSlope s)"
  using assms by (simp_all add: realPosition_def split: if_splits)

lemma derive_apparent:
  assumes "refractiveIndex s = Fin n" and "1 \<le> n"
    and "leftPoint s = \<lparr> px = Fin lx, py = Fin 450 \<rparr>"
    and "rightPoint s = \<lparr> px = Fin rx, py = Fin 450 \<rparr>"
    and "leftAngleDeg s = Fin a" and "0 < a"
    and "rightAngleDeg s = Fin b" and "0 < b"
    and "lockRealPosition s"
    and "realPosition s = Some \<lparr> px = Fin X, py = Fin Y \<rparr>" and "Y < 450"
  shows "updateApparentFromReal s =
           s\<lparr>apparentPosition :=
               intersectRays \<lparr> px = Fin lx, py = Fin 450 \<rparr>
                 (Fin (side_sign (X - lx < 0) * cot_deg a))
                 \<lparr> px = Fin rx, py = Fin 450 \<rparr>
                 (Fin (side_sign (X - rx < 0) * cot_deg b))\<rparr>"
proof -
  note nt = realPosition_no_tir [OF assms(10)]
  have c: "criticalAngle s = Fin (arcsin (1 / n) * 180 / pi)"
    using assms(1,2) by (rule criticalAngle_ge_one)
  have a: "a < arcsin (1 / n) * 180 / pi"
    using nt(1) by (simp add: leftExceedsCritical_def c assms(5))
  have b: "b < arcsin (1 / n) * 180 / pi"
    using nt(2) by (simp add: rightExceedsCritical_def c assms(7))
  have a90: "a < 90" using a critical_le_90 [OF assms(2)] by linarith
  have b90: "b < 90" using b critical_le_90 [OF assms(2)] by linarith
  note sl = realSlopes_fin [OF assms(1,2,3,4,5,6) a assms(7,8) b]
  note ra = refracted_deg_range [OF assms(2,6) a]
  note rb = refracted_deg_range [OF assms(2,8) b]
  let ?mL = "side_sign (num_lt (px (apparentPosition s)) (Fin lx)) * cot_deg (refracted_deg n a)"
  let ?mR = "side_sign (num_lt (px (apparentPosition s)) (Fin rx)) * cot_deg (refracted_deg n b)"
  have "intersectRays \<lparr> px = Fin lx, py = Fin 450 \<rparr> (Fin ?mL)
          \<lparr> px = Fin rx, py = Fin 450 \<rparr> (Fin ?mR) = \<lparr> px = Fin X, py = Fin Y \<rparr>"
    using nt(3) by (simp add: assms(3,4) sl(3,4))
  note xy = intersectRays_fin_result [OF this]
  have dy: "Y - 450 < 0" using assms(11) by simp
  have absL: "\<bar>?mL\<bar> = cot_deg (refracted_deg n a)"
    using sin_cos_deg_pos(3) [OF ra(2,3)] by (simp add: side_sign_def abs_mult)
  have absR: "\<bar>?mR\<bar> = cot_deg (refracted_deg n b)"
    using sin_cos_deg_pos(3) [OF rb(2,3)] by (simp add: side_sign_def abs_mult)
  have incL: "num_atan2 (num_abs (num_sub (Fin X) (Fin lx))) (num_abs (num_sub (Fin Y) (Fin 450)))
              = Fin (refracted_deg n a * pi / 180)"
    using atan2_recover(1) [OF ra(2,3) xy(1) absL dy] by (simp add: num_sub_def)
  have incR: "num_atan2 (num_abs (num_sub (Fin X) (Fin rx))) (num_abs (num_sub (Fin Y) (Fin 450)))
              = Fin (refracted_deg n b * pi / 180)"
    using atan2_recover(1) [OF rb(2,3) xy(2) absR dy] by (simp add: num_sub_def)
  note wa = water_angle_back [OF assms(2,6) a]
  note wb = water_angle_back [OF assms(2,8) b]
  have sideL: "num_lt (num_sub (Fin X) (Fin lx)) (Fin 0) = (X - lx < 0)"
    by (simp add: num_sub_def)
  have sideR: "num_lt (num_sub (Fin X) (Fin rx)) (Fin 0) = (X - rx < 0)"
    by (simp add: num_sub_def)
  have guard: "\<not> num_ge (Fin Y) waterLevelY"
    using assms(11) by (simp add: waterLevelY_def)
  show ?thesis
    unfolding updateApparentFromReal_def
    by (simp only: assms(9) assms(10) nt(1,2) guard option.case Let_def point.simps
        assms(1,3,4) incL incR wa wb sideL sideR raySlope_fin [OF assms(6) a90]
        raySlope_fin [OF assms(8) b90] if_False if_True simp_thms)
qed

lemma rederive_angles:
  assumes "leftPoint t = \<lparr> px = Fin lx, py = Fin 450 \<rparr>"
    and "rightPoint t = \<lparr> px = Fin rx, py = Fin 450 \<rparr>"
    and "apparentPosition t = \<lparr> px = Fin X, py = Fin Y \<rparr>" and "Y < 450"
    and "Y - 450 = mL * (X - lx)" and "\<bar>mL\<bar> = cot_deg a" and "0 < a" and "a < 90"
    and "Y - 450 = mR * (X - rx)" and "\<bar>mR\<bar> = cot_deg b" and "0 < b" and "b < 90"
    and "dragging t = Some ApparentPosition"
    and "screenToWorld t (num_sub (clientX e) (rect_left rect))
           (num_sub (clientY e) (rect_top rect)) = apparentPosition t"
  shows "leftAngleDeg (handleMouseMove rect e t) = Fin (round1 a)"
    and "rightAngleDeg (handleMouseMove rect e t) = Fin (round1 b)"
proof -
  have dy: "Y - 450 < 0" using assms(4) by simp
  have angL: "num_abs (num_atan2_neg (num_sub (Fin X) (Fin lx)) (num_sub (Fin Y) (Fin 450)))
              = Fin (a * pi / 180)"
    using atan2_recover(2) [OF assms(7,8,5,6) dy] dy
    by (simp add: num_atan2_neg_def num_sub_def)
  have angR: "num_abs (num_atan2_neg (num_sub (Fin X) (Fin rx)) (num_sub (Fin Y) (Fin 450)))
              = Fin (b * pi / 180)"
    using atan2_recover(2) [OF assms(11,12,9,10) dy] dy
    by (simp add: num_atan2_neg_def num_sub_def)
  have guard: "num_lt (Fin Y) waterLevelY"
    using assms(4) by (simp add: waterLevelY_def)
  have degL: "num_div (Fin (a * pi)) num_PI = Fin a"
    by (simp add: num_PI_def)
  have degR: "num_div (Fin (b * pi)) num_PI = Fin b"
    by (simp add: num_PI_def)
  have fixL: "parseFloat_toFixed1 (Fin a) = Fin (round1 a)" using assms(7,8) by simp
  have fixR: "parseFloat_toFixed1 (Fin b) = Fin (round1 b)" using assms(11,12) by simp
  show "leftAngleDeg (handleMouseMove rect e t) = Fin (round1 a)"
    by (simp add: handleMouseMove_def assms(13,14) Let_def assms(3) guard
        updateAnglesFromPositions_def assms(1,2) angL degL fixL del: parseFloat_toFixed1.simps)
  show "rightAngleDeg (handleMouseMove rect e t) = Fin (round1 b)"
    by (simp add: handleMouseMove_def assms(13,14) Let_def assms(3) guard
        updateAnglesFromPositions_def assms(1,2) angR degR fixR del: parseFloat_toFixed1.simps)
qed

lemma angleWatcher_in_range:
  assumes "\<not> updatingFromDrag s"
    and "leftAngleDeg s = Fin a" and "0 < a" and "a \<le> 899 / 10"
    and "rightAngleDeg s = Fin b" and "0 < b" and "b \<le> 899 / 10"
  shows "angleWatcher s = updateApparentFromReal s"
proof -
  have "num_max (Fin 0) (num_min (Fin (899 / 10)) (leftAngleDeg s)) = leftAngleDeg s"
    using assms(3,4) by (simp add: assms(2))
  moreover have "num_max (Fin 0) (num_min (Fin (899 / 10)) (rightAngleDeg s)) = rightAngleDeg s"
    using assms(6,7) by (simp add: assms(5))
  ultimately show ?thesis
    using assms(1) by (simp add: angleWatcher_def Let_def)
qed

lemma reconcile_angles:
  assumes "refractiveIndex s = Fin n" and "1 \<le> n"
    and "leftPoint s = \<lparr> px = Fin lx, py = waterLevelY \<rparr>"
    and "rightPoint s = \<lparr> px = Fin rx, py = waterLevelY \<rparr>"
    and "leftAngleDeg s = Fin a" and "0 < a" and "a \<le> 899 / 10"
    and "rightAngleDeg s = Fin b" and "0 < b" and "b \<le> 899 / 10"
    and "\<not> updatingFromDrag s" and "lockRealPosition s"
    and "realPosition s = Some \<lparr> px = Fin X, py = Fin Y \<rparr>" and "Y < 450"
    and "apparentPosition (angleWatcher s) = \<lparr> px = Fin X', py = Fin Y' \<rparr>" and "Y' < 450"
    and "dragging s = Some ApparentPosition"
    and "screenToWorld (angleWatcher s) (num_sub (clientX e) (rect_left rect))
           (num_sub (clientY e) (rect_top rect)) = apparentPosition (angleWatcher s)"
  shows "angleWatcher s = updateApparentFromReal s"
    and "leftAngleDeg (angleWatcher s) = Fin a"
    and "rightAngleDeg (angleWatcher s) = Fin b"
    and "leftAngleDeg (handleMouseMove rect e (angleWatcher s)) = Fin (round1 a)"
    and "rightAngleDeg (handleMouseMove rect e (angleWatcher s)) = Fin (round1 b)"
proof -
  let ?t = "angleWatcher s"
  have pts: "leftPoint s = \<lparr> px = Fin lx, py = Fin 450 \<rparr>"
    "rightPoint s = \<lparr> px = Fin rx, py = Fin 450 \<rparr>"
    using assms(3,4) by (simp_all add: waterLevelY_def)
  show w: "?t = updateApparentFromReal s"
    using assms(11,5,6,7,8,9,10) by (rule angleWatcher_in_range)
  note d = derive_apparent [OF assms(1,2) pts assms(5,6,8,9,12,13,14)]
  let ?mL = "side_sign (X - lx < 0) * cot_deg a"
  let ?mR = "side_sign (X - rx < 0) * cot_deg b"
  have t: "?t = s\<lparr>apparentPosition :=
               intersectRays \<lparr> px = Fin lx, py = Fin 450 \<rparr> (Fin ?mL)
                 \<lparr> px = Fin rx, py = Fin 450 \<rparr> (Fin ?mR)\<rparr>"
    using w d by simp
  show la: "leftAngleDeg ?t = Fin a" by (simp add: t assms(5))
  show lb: "rightAngleDeg ?t = Fin b" by (simp add: t assms(8))
  have tp: "leftPoint ?t = \<lparr> px = Fin lx, py = Fin 450 \<rparr>"
    "rightPoint ?t = \<lparr> px = Fin rx, py = Fin 450 \<rparr>"
    "dragging ?t = Some ApparentPosition"
    by (simp_all add: t pts assms(17))
  have "intersectRays \<lparr> px = Fin lx, py = Fin 450 \<rparr> (Fin ?mL)
          \<lparr> px = Fin rx, py = Fin 450 \<rparr> (Fin ?mR) = \<lparr> px = Fin X', py = Fin Y' \<rparr>"
    using assms(15) by (simp add: t)
  note xy = intersectRays_fin_result [OF this]
  note nt = realPosition_no_tir [OF assms(13)]
  have c: "criticalAngle s = Fin (arcsin (1 / n) * 180 / pi)"
    using assms(1,2) by (rule criticalAngle_ge_one)
  have "a < arcsin (1 / n) * 180 / pi"
    using nt(1) by (simp add: leftExceedsCritical_def c assms(5))
  then have a90: "a < 90" using critical_le_90 [OF assms(2)] by linarith
  have "b < arcsin (1 / n) * 180 / pi"
    using nt(2) by (simp add: rightExceedsCritical_def c assms(8))
  then have b90: "b < 90" using critical_le_90 [OF assms(2)] by linarith
  have absL: "\<bar>?mL\<bar> = cot_deg a"
    using sin_cos_deg_pos(3) [OF assms(6) a90] by (simp add: side_sign_def abs_mult)
  have absR: "\<bar>?mR\<bar> = cot_deg b"
    using sin_cos_deg_pos(3) [OF assms(9) b90] by (simp add: side_sign_def abs_mult)
  note re = rederive_angles [OF tp(1,2) assms(15,16) xy(1) absL assms(6) a90 xy(2) absR
      assms(9) b90 tp(3) assms(18)]
  show "leftAngleDeg (handleMouseMove rect e ?t) = Fin (round1 a)" by (rule re(1))
  show "rightAngleDeg (handleMouseMove rect e ?t) = Fin (round1 b)" by (rule re(2))
qed

lemma equal_angles_fields:
  "refractiveIndex (equal_angles a) = Fin (133 / 100)"
  "leftPoint (equal_angles a) = \<lparr> px = Fin 250, py = waterLevelY \<rparr>"
  "rightPoint (equal_angles a) = \<lparr> px = Fin 550, py = waterLevelY \<rparr>"
  "px (apparentPosition (equal_angles a)) = Fin ((250 + 550) / 2)"
  "leftAngleDeg (equal_angles a) = Fin a"
  "rightAngleDeg (equal_angles a) = Fin a"
  "\<not> updatingFromDrag (equal_angles a)"
  "lockRealPosition (equal_angles a)"
  "dragging (equal_angles a) = Some ApparentPosition"
  "viewportOffset (equal_angles a) = \<lparr> px = Fin 0, py = Fin 0 \<rparr>"
  by (simp_all add: equal_angles_def dragging_apparent_def initial_state_def)

lemma equal_angles_pass:
  assumes "0 < a" and "a \<le> 899 / 10" and "a < arcsin (100 / 133) * 180 / pi"
  shows "realPosition (equal_angles a) =
           Some \<lparr> px = Fin 400, py = Fin (450 - 150 * cot_deg (refracted_deg (133 / 100) a)) \<rparr>"
    and "450 - 150 * cot_deg (refracted_deg (133 / 100) a) < 450"
    and "apparentPosition (angleWatcher (equal_angles a)) =
           \<lparr> px = Fin 400, py = Fin (450 - 150 * cot_deg a) \<rparr>"
    and "450 - 150 * cot_deg a < 450"
    and "screenToWorld (angleWatcher (equal_angles a))
           (num_sub (clientX (mouse_at (apparentPosition (angleWatcher (equal_angles a)))))
              (rect_left canvas_rect))
           (num_sub (clientY (mouse_at (apparentPosition (angleWatcher (equal_angles a)))))
              (rect_top canvas_rect))
         = apparentPosition (angleWatcher (equal_angles a))"
proof -
  let ?s = "equal_angles a"
  have n: "(1::real) \<le> 133 / 100" "(250::real) \<noteq> 550"
    "a < arcsin (1 / (133 / 100)) * 180 / pi"
    using assms(3) by simp_all
  have a90: "a < 90" using n(3) critical_le_90 [OF n(1)] by linarith
  have pts: "leftPoint ?s = \<lparr> px = Fin 250, py = Fin 450 \<rparr>"
    "rightPoint ?s = \<lparr> px = Fin 550, py = Fin 450 \<rparr>"
    by (simp_all add: equal_angles_fields waterLevelY_def)
  show rp: "realPosition ?s =
           Some \<lparr> px = Fin 400, py = Fin (450 - 150 * cot_deg (refracted_deg (133 / 100) a)) \<rparr>"
    using realPosition_symmetric [OF equal_angles_fields(1) n(1) equal_angles_fields(2,3) n(2)
        equal_angles_fields(4,5,6) assms(1) n(3)]
    by simp
  note r = refracted_deg_range [OF n(1) assms(1) n(3)]
  show y: "450 - 150 * cot_deg (refracted_deg (133 / 100) a) < 450"
    using sin_cos_deg_pos(3) [OF r(2,3)] by simp
  have w: "angleWatcher ?s = updateApparentFromReal ?s"
    using equal_angles_fields(7,5) assms(1,2) equal_angles_fields(6) assms(1,2)
    by (rule angleWatcher_in_range)
  note d = derive_apparent [OF equal_angles_fields(1) n(1) pts equal_angles_fields(5) assms(1)
      equal_angles_fields(6) assms(1) equal_angles_fields(8) rp y]
  have c: "cot_deg a \<noteq> 0" using sin_cos_deg_pos(3) [OF assms(1) a90] by simp
  then have c': "- cot_deg a \<noteq> cot_deg a" by simp
  show ap: "apparentPosition (angleWatcher ?s) = \<lparr> px = Fin 400, py = Fin (450 - 150 * cot_deg a) \<rparr>"
    using c' by (simp add: w d side_sign_def intersectRays_fin meet_x_symmetric [OF c])
  show "450 - 150 * cot_deg a < 450"
    using sin_cos_deg_pos(3) [OF assms(1) a90] by simp
  have "viewportOffset (angleWatcher ?s) = \<lparr> px = Fin 0, py = Fin 0 \<rparr>"
    by (simp add: w d equal_angles_fields)
  then show "screenToWorld (angleWatcher ?s)
           (num_sub (clientX (mouse_at (apparentPosition (angleWatcher ?s))))
              (rect_left canvas_rect))
           (num_sub (clientY (mouse_at (apparentPosition (angleWatcher ?s))))
              (rect_top canvas_rect))
         = apparentPosition (angleWatcher ?s)"
    by (simp add: ap screenToWorld_def mouse_at_def canvas_rect_def num_sub_def)
qed

text \<open>
  C5 (amended). Let the angle watcher run in a state with the lock on, refractive index
  \<open>n >= 1\<close>, both refraction points on the interface, both angles in \<open>(0, 89.9]\<close> and
  unchanged by rounding to one decimal, and a real position that is a finite point above
  the interface; let the apparent position it derives be a finite point above the
  interface. Then dragging the apparent position onto that derived position leaves both
  angles unchanged.
\<close>

theorem reconciliation_fixed_point:
  assumes "refractiveIndex s = Fin n" and "1 \<le> n"
    and "leftPoint s = \<lparr> px = Fin lx, py = waterLevelY \<rparr>"
    and "rightPoint s = \<lparr> px = Fin rx, py = waterLevelY \<rparr>"
    and "leftAngleDeg s = Fin a" and "0 < a" and "a \<le> 899 / 10"
    and "rightAngleDeg s = Fin b" and "0 < b" and "b \<le> 899 / 10"
    and "parseFloat_toFixed1 (Fin a) = Fin a" and "parseFloat_toFixed1 (Fin b) = Fin b"
    and "\<not> updatingFromDrag s" and "lockRealPosition s"
    and "realPosition s = Some \<lparr> px = Fin X, py = Fin Y \<rparr>" and "Y < 450"
    and "apparentPosition (angleWatcher s) = \<lparr> px = Fin X', py = Fin Y' \<rparr>" and "Y' < 450"
    and "dragging s = Some ApparentPosition"
    and "screenToWorld (angleWatcher s) (num_sub (clientX e) (rect_left rect))
           (num_sub (clientY e) (rect_top rect)) = apparentPosition (angleWatcher s)"
  shows "leftAngleDeg (handleMouseMove rect e (angleWatcher s)) = leftAngleDeg (angleWatcher s) \<and>
         rightAngleDeg (handleMouseMove rect e (angleWatcher s)) = rightAngleDeg (angleWatcher s)"
proof -
  note r = reconcile_angles [OF assms(1-10) assms(13-20)]
  have "round1 a = a" using assms(6,7,11) by simp
  moreover have "round1 b = b" using assms(9,10,12) by simp
  ultimately show ?thesis using r(2-5) by simp
qed

theorem reconciliation_fixed_point_witness:
  "apparentPosition (angleWatcher (equal_angles 30)) =
     \<lparr> px = Fin 400, py = Fin (450 - 150 * cot_deg 30) \<rparr> \<and>
   leftAngleDeg (handleMouseMove canvas_rect
       (mouse_at (apparentPosition (angleWatcher (equal_angles 30))))
       (angleWatcher (equal_angles 30))) = leftAngleDeg (angleWatcher (equal_angles 30)) \<and>
   rightAngleDeg (handleMouseMove canvas_rect
       (mouse_at (apparentPosition (angleWatcher (equal_angles 30))))
       (angleWatcher (equal_angles 30))) = rightAngleDeg (angleWatcher (equal_angles 30))"
proof -
  have n: "(1::real) \<le> 133 / 100" "(0::real) < 30" "(30::real) \<le> 899 / 10"
    "(30::real) < arcsin (100 / 133) * 180 / pi"
    using criticalAngle_133_bounds by simp_all
  have f: "parseFloat_toFixed1 (Fin 30) = Fin 30"
    by (simp add: round1_def)
  note p = equal_angles_pass [OF n(2,3,4)]
  from reconciliation_fixed_point [OF equal_angles_fields(1) n(1) equal_angles_fields(2,3,5)
      n(2,3) equal_angles_fields(6) n(2,3) f f equal_angles_fields(7,8) p(1,2,3,4)
      equal_angles_fields(9) p(5)] p(3)
  show ?thesis by simp
qed

theorem reconciliation_drift_counterexample:
  "apparentPosition (angleWatcher (equal_angles (3027 / 100))) =
     \<lparr> px = Fin 400, py = Fin (450 - 150 * cot_deg (3027 / 100)) \<rparr> \<and>
   leftAngleDeg (angleWatcher (equal_angles (3027 / 100))) = Fin (3027 / 100) \<and>
   leftAngleDeg (handleMouseMove canvas_rect
       (mouse_at (apparentPosition (angleWatcher (equal_angles (3027 / 100)))))
       (angleWatcher (equal_angles (3027 / 100)))) = Fin (303 / 10)"
proof -
  have n: "(1::real) \<le> 133 / 100" "(0::real) < 3027 / 100" "(3027 / 100 :: real) \<le> 899 / 10"
    "(3027 / 100 :: real) < arcsin (100 / 133) * 180 / pi"
    using critical_angle_133_tight(1) by simp_all
  note p = equal_angles_pass [OF n(2,3,4)]
  note r = reconcile_angles [OF equal_angles_fields(1) n(1) equal_angles_fields(2,3,5)
      n(2,3) equal_angles_fields(6) n(2,3) equal_angles_fields(7,8) p(1,2,3,4)
      equal_angles_fields(9) p(5)]
  have "round1 (3027 / 100) = 303 / 10"
    by (simp add: round1_def)
  with p(3) r(2,4) show ?thesis by simp
qed

section \<open>The suppress flag\<close>

text \<open>
  What the component itself fixes about \<open>updatingFromDrag\<close>: the callback of the angle
  watcher returns at once while the flag is set, and \<open>handleMouseMove\<close> never leaves the
  flag set when it was clear before.
\<close>

lemma angleWatcher_suppressed: "updatingFromDrag s \<Longrightarrow> angleWatcher s = s"
  by (simp add: angleWatcher_def)

lemma updateApparentFromReal_flag [simp]:
  "updatingFromDrag (updateApparentFromReal s) = updatingFromDrag s"
  by (simp add: updateApparentFromReal_def Let_def split: option.splits)

lemma handleMouseMove_flag_released:
  "\<not> updatingFromDrag s \<Longrightarrow> \<not> updatingFromDrag (handleMouseMove rect e s)"
  by (simp add: handleMouseMove_def Let_def split: option.splits drag_target.splits)

section \<open>The stored water angle\<close>

lemma incident_angle:
  assumes "Y < ly"
  shows "num_abs (num_atan2_neg (num_sub (Fin X) (Fin lx)) (num_sub (Fin Y) (Fin ly)))
         = Fin (arctan (\<bar>X - lx\<bar> / (ly - Y)))"
    and "0 \<le> arctan (\<bar>X - lx\<bar> / (ly - Y))"
    and "arctan (\<bar>X - lx\<bar> / (ly - Y)) < pi / 2"
proof -
  have d: "0 < ly - Y" using assms by simp
  have "atan2_real (X - lx) (- (Y - ly)) = arctan ((X - lx) / (ly - Y))"
    using d by (simp add: atan2_real_def)
  then have "\<bar>atan2_real (X - lx) (- (Y - ly))\<bar> = arctan \<bar>(X - lx) / (ly - Y)\<bar>"
    by (simp only: abs_arctan)
  also have "\<bar>(X - lx) / (ly - Y)\<bar> = \<bar>X - lx\<bar> / (ly - Y)"
    using d by simp
  finally have a: "\<bar>atan2_real (X - lx) (- (Y - ly))\<bar> = arctan (\<bar>X - lx\<bar> / (ly - Y))" .
  have ne: "Y - ly \<noteq> 0" using assms by simp
  show "num_abs (num_atan2_neg (num_sub (Fin X) (Fin lx)) (num_sub (Fin Y) (Fin ly)))
         = Fin (arctan (\<bar>X - lx\<bar> / (ly - Y)))"
    using a ne by (simp add: num_atan2_neg_def num_sub_def)
  show "0 \<le> arctan (\<bar>X - lx\<bar> / (ly - Y))"
    using d by simp
  show "arctan (\<bar>X - lx\<bar> / (ly - Y)) < pi / 2"
    by (rule arctan_ubound)
qed

lemma stored_water_angle:
  assumes "1 \<le> n" and "0 \<le> x" and "x < pi / 2"
  shows "num_div (num_mul (airToWaterRad (Fin n) (Fin x)) (Fin 180)) num_PI
         = Fin (arcsin (sin x / n) * 180 / pi)"
    and "0 \<le> arcsin (sin x / n) * 180 / pi"
    and "arcsin (sin x / n) * 180 / pi < 90"
proof -
  have n: "0 < n" using assms(1) by simp
  show "num_div (num_mul (airToWaterRad (Fin n) (Fin x)) (Fin 180)) num_PI
         = Fin (arcsin (sin x / n) * 180 / pi)"
    by (simp add: airToWaterRad_fin [OF assms(1)] num_PI_def)
  have s0: "0 \<le> sin x"
    by (rule sin_ge_zero) (use assms(2,3) pi_ge_zero in linarith)+
  have "sin x \<le> 1" by simp
  then have "sin x \<le> n" using assms(1) by linarith
  then have q1: "sin x / n \<le> 1" using n by (simp add: pos_divide_le_eq)
  have q0: "0 \<le> sin x / n" using s0 n by simp
  have "0 \<le> arcsin (sin x / n)"
    by (rule arcsin_nonneg) (use q0 q1 in simp)
  then show "0 \<le> arcsin (sin x / n) * 180 / pi" by simp
  have lt: "sin x / n < 1"
  proof -
    have "- (pi / 2) \<le> x" using assms(2) pi_ge_zero by linarith
    then have "sin x < sin (pi / 2)"
      using assms(3) by (rule sin_monotone_2pi) simp
    then have "sin x < 1" by simp
    then have "sin x < n" using assms(1) by linarith
    then show ?thesis using n by (simp add: pos_divide_less_eq)
  qed
  have "arcsin (sin x / n) < arcsin 1"
    by (rule arcsin_less_arcsin) (use q0 lt in linarith)+
  then have "arcsin (sin x / n) * 180 < 90 * pi" by simp
  then show "arcsin (sin x / n) * 180 / pi < 90"
    by (simp add: pos_divide_less_eq)
qed

lemma updateAnglesFromRealPosition_stored:
  assumes "refractiveIndex s = Fin n" and "1 \<le> n"
    and "leftPoint s = \<lparr> px = Fin lx, py = Fin ly \<rparr>"
    and "rightPoint s = \<lparr> px = Fin rx, py = Fin ry \<rparr>"
    and "Y < ly" and "Y < ry"
  shows "leftAngleDeg (updateAnglesFromRealPosition \<lparr> px = Fin X, py = Fin Y \<rparr> s)
         = parseFloat_toFixed1
             (Fin (arcsin (sin (arctan (\<bar>X - lx\<bar> / (ly - Y))) / n) * 180 / pi))"
    and "rightAngleDeg (updateAnglesFromRealPosition \<lparr> px = Fin X, py = Fin Y \<rparr> s)
         = parseFloat_toFixed1
             (Fin (arcsin (sin (arctan (\<bar>X - rx\<bar> / (ry - Y))) / n) * 180 / pi))"
    and "refractiveIndex (updateAnglesFromRealPosition \<lparr> px = Fin X, py = Fin Y \<rparr> s) = Fin n"
proof -
  note iL = incident_angle [OF assms(5), of X lx]
  note iR = incident_angle [OF assms(6), of X rx]
  note wL = stored_water_angle [OF assms(2) iL(2,3)]
  note wR = stored_water_angle [OF assms(2) iR(2,3)]
  show "leftAngleDeg (updateAnglesFromRealPosition \<lparr> px = Fin X, py = Fin Y \<rparr> s)
         = parseFloat_toFixed1
             (Fin (arcsin (sin (arctan (\<bar>X - lx\<bar> / (ly - Y))) / n) * 180 / pi))"
    by (simp add: updateAnglesFromRealPosition_def Let_def assms(1,3,4) iL(1) wL(1)
        del: parseFloat_toFixed1.simps)
  show "rightAngleDeg (updateAnglesFromRealPosition \<lparr> px = Fin X, py = Fin Y \<rparr> s)
         = parseFloat_toFixed1
             (Fin (arcsin (sin (arctan (\<bar>X - rx\<bar> / (ry - Y))) / n) * 180 / pi))"
    by (simp add: updateAnglesFromRealPosition_def Let_def assms(1,3,4) iR(1) wR(1)
        del: parseFloat_toFixed1.simps)
  show "refractiveIndex (updateAnglesFromRealPosition \<lparr> px = Fin X, py = Fin Y \<rparr> s) = Fin n"
    by (simp add: updateAnglesFromRealPosition_def Let_def assms(1))
qed

lemma refracted_of_stored:
  assumes "refractiveIndex s = Fin n" and "1 \<le> n"
    and "0 \<le> x" and "x < pi / 2"
    and "leftAngleDeg s = Fin (arcsin (sin x / n) * 180 / pi)"
  shows "leftRefractedAngle s = Fin (x * 180 / pi)"
proof -
  let ?t = "x * 180 / pi"
  have t: "0 \<le> ?t" "?t < 90"
    using assms(3,4) by (simp_all add: pos_divide_less_eq)
  have x: "?t * pi / 180 = x" by simp
  note rt = round_trip_real [OF assms(2) t, unfolded x]
  have c: "criticalAngle s = Fin (arcsin (1 / n) * 180 / pi)"
    using assms(1,2) by (rule criticalAngle_ge_one)
  show ?thesis
    using rt by (simp add: leftRefractedAngle_def leftExceedsCritical_def c assms(1,5))
qed

lemma refracted_of_stored_right:
  assumes "refractiveIndex s = Fin n" and "1 \<le> n"
    and "0 \<le> x" and "x < pi / 2"
    and "rightAngleDeg s = Fin (arcsin (sin x / n) * 180 / pi)"
  shows "rightRefractedAngle s = Fin (x * 180 / pi)"
proof -
  let ?t = "x * 180 / pi"
  have t: "0 \<le> ?t" "?t < 90"
    using assms(3,4) by (simp_all add: pos_divide_less_eq)
  have x: "?t * pi / 180 = x" by simp
  note rt = round_trip_real [OF assms(2) t, unfolded x]
  have c: "criticalAngle s = Fin (arcsin (1 / n) * 180 / pi)"
    using assms(1,2) by (rule criticalAngle_ge_one)
  show ?thesis
    using rt by (simp add: rightRefractedAngle_def rightExceedsCritical_def c assms(1,5))
qed

lemma round1_eq:
  assumes "of_int k - 1 / 2 \<le> w * 10" and "w * 10 < of_int k + 1 / 2"
  shows "round1 w = of_int k / 10"
proof -
  have "\<lfloor>w * 10 + 1 / 2\<rfloor> = k"
    by (rule floor_unique) (use assms in linarith)+
  then show ?thesis by (simp add: round1_def)
qed

lemma sqrt2_bounds: "14142 / 10000 < sqrt 2" "sqrt 2 < 14143 / 10000"
proof -
  show "14142 / 10000 < sqrt 2"
    by (rule real_less_rsqrt) (simp add: power2_eq_square)
  show "sqrt 2 < 14143 / 10000"
    by (rule real_less_lsqrt) (simp_all add: power2_eq_square)
qed

lemma sin45_over_133_bounds:
  "5316 / 10000 < sin (pi / 4) / (133 / 100)" "sin (pi / 4) / (133 / 100) < 5317 / 10000"
  using sqrt2_bounds by (simp_all add: sin_45)

lemma water_45_bounds:
  "3205 / 100 < arcsin (sin (pi / 4) / (133 / 100)) * 180 / pi"
  "arcsin (sin (pi / 4) / (133 / 100)) * 180 / pi < 3215 / 100"
proof -
  have "sin (3205 / 100 * pi / 180) < (5316 / 10000 :: real)"
    by (rule sin_deg_upper [where xu = "839069 / 1500000"]) (simp_all add: power_divide)
  then have "sin (3205 / 100 * pi / 180) < sin (pi / 4) / (133 / 100)"
    using sin45_over_133_bounds(1) by linarith
  then show "3205 / 100 < arcsin (sin (pi / 4) / (133 / 100)) * 180 / pi"
    by (intro arcsin_deg_lower) (use sin45_over_133_bounds(2) in simp_all)
  have "(5317 / 10000 :: real) < sin (3215 / 100 * pi / 180)"
    by (rule sin_deg_lower [where xl = "4039969 / 7200000"]) (simp_all add: power_divide)
  then have "sin (pi / 4) / (133 / 100) < sin (3215 / 100 * pi / 180)"
    using sin45_over_133_bounds(2) by linarith
  then show "arcsin (sin (pi / 4) / (133 / 100)) * 180 / pi < 3215 / 100"
    by (intro arcsin_deg_upper) (use sin45_over_133_bounds(1) in simp_all)
qed

lemma water_45_stored:
  "parseFloat_toFixed1 (Fin (arcsin (sin (pi / 4) / (133 / 100)) * 180 / pi)) = Fin (321 / 10)"
proof -
  let ?w = "arcsin (sin (pi / 4) / (133 / 100)) * 180 / pi"
  have "round1 ?w = of_int 321 / 10"
    by (rule round1_eq) (use water_45_bounds in simp_all)
  moreover have "\<not> ?w < 0" "\<not> 10 ^ 21 \<le> \<bar>?w\<bar>"
    using water_45_bounds by simp_all
  ultimately show ?thesis by simp
qed

lemma refracted_321_bound:
  "arcsin (133 / 100 * sin (321 / 10 * pi / 180)) * 180 / pi < (4498 / 100 :: real)"
proof -
  have u: "sin (321 / 10 * pi / 180) < (5314 / 10000 :: real)"
    by (rule sin_deg_upper [where xu = "140063 / 250000"]) (simp_all add: power_divide)
  have l: "(7068 / 10000 :: real) < sin (4498 / 100 * pi / 180)"
    by (rule sin_deg_lower [where xl = "14130467 / 18000000"]) (simp_all add: power_divide)
  have "133 / 100 * sin (321 / 10 * pi / 180) < (7068 / 10000 :: real)"
    using u by simp
  with l have lt: "133 / 100 * sin (321 / 10 * pi / 180) < sin (4498 / 100 * pi / 180)"
    by linarith
  have "0 \<le> sin (321 / 10 * pi / 180 :: real)"
    by (rule sin_ge_zero) (use pi_ge_zero in simp_all)
  then have "- 1 \<le> 133 / 100 * sin (321 / 10 * pi / 180)" by simp
  then show ?thesis
    using lt by (intro arcsin_deg_upper) simp_all
qed

text \<open>
  C3 (amended). In the component an air-to-water angle reaches an Angle, and from there
  the water-to-air refraction, only through \<open>updateAnglesFromRealPosition\<close>, which stores it
  rounded to one decimal. For \<open>n\<close> in \<open>[1, 2)\<close> and a real position above both refraction
  points, with \<open>x\<close> the incident angle at a refraction point (between 0 and 90 degrees, the
  angles below the critical angle included) and \<open>w = asin((1/n) sin x)\<close> in degrees: the
  stored Angle is \<open>w\<close> rounded to one decimal, and when the rounding leaves \<open>w\<close> unchanged the
  refracted angle of that side is \<open>x\<close> again.
\<close>

theorem stored_round_trip:
  assumes "refractiveIndex s = Fin n" and "1 \<le> n" and "n < 2"
    and "leftPoint s = \<lparr> px = Fin lx, py = Fin ly \<rparr>"
    and "rightPoint s = \<lparr> px = Fin rx, py = Fin ry \<rparr>"
    and "Y < ly" and "Y < ry"
    and "xL = arctan (\<bar>X - lx\<bar> / (ly - Y))" and "xR = arctan (\<bar>X - rx\<bar> / (ry - Y))"
    and "wL = arcsin (sin xL / n) * 180 / pi" and "wR = arcsin (sin xR / n) * 180 / pi"
    and "s' = updateAnglesFromRealPosition \<lparr> px = Fin X, py = Fin Y \<rparr> s"
  shows "leftAngleDeg s' = parseFloat_toFixed1 (Fin wL) \<and>
         rightAngleDeg s' = parseFloat_toFixed1 (Fin wR) \<and>
         (parseFloat_toFixed1 (Fin wL) = Fin wL \<longrightarrow> leftRefractedAngle s' = Fin (xL * 180 / pi)) \<and>
         (parseFloat_toFixed1 (Fin wR) = Fin wR \<longrightarrow> rightRefractedAngle s' = Fin (xR * 180 / pi))"
proof -
  note st = updateAnglesFromRealPosition_stored [OF assms(1,2,4,5,6,7), of X]
  note iL = incident_angle(2,3) [OF assms(6), of X lx]
  note iR = incident_angle(2,3) [OF assms(7), of X rx]
  have l: "leftAngleDeg s' = parseFloat_toFixed1 (Fin wL)"
    using st(1) by (simp only: assms(8,10,12))
  have r: "rightAngleDeg s' = parseFloat_toFixed1 (Fin wR)"
    using st(2) by (simp only: assms(9,11,12))
  have n: "refractiveIndex s' = Fin n"
    using st(3) by (simp only: assms(12))
  have "leftRefractedAngle s' = Fin (xL * 180 / pi)" if "parseFloat_toFixed1 (Fin wL) = Fin wL"
  proof (rule refracted_of_stored [OF n assms(2)])
    show "0 \<le> xL" "xL < pi / 2" using iL by (simp_all only: assms(8))
    show "leftAngleDeg s' = Fin (arcsin (sin xL / n) * 180 / pi)"
      using l that by (simp only: assms(10))
  qed
  moreover
  have "rightRefractedAngle s' = Fin (xR * 180 / pi)" if "parseFloat_toFixed1 (Fin wR) = Fin wR"
  proof (rule refracted_of_stored_right [OF n assms(2)])
    show "0 \<le> xR" "xR < pi / 2" using iR by (simp_all only: assms(9))
    show "rightAngleDeg s' = Fin (arcsin (sin xR / n) * 180 / pi)"
      using r that by (simp only: assms(11))
  qed
  ultimately show ?thesis using l r by blast
qed

lemma real_position_incident:
  "refracted_deg (133 / 100) 30 * pi / 180
     = arctan (\<bar>400 - 250\<bar> / (450 - (450 - 150 * cot_deg (refracted_deg (133 / 100) 30))))"
  "refracted_deg (133 / 100) 30 * pi / 180
     = arctan (\<bar>400 - 550\<bar> / (450 - (450 - 150 * cot_deg (refracted_deg (133 / 100) 30))))"
  "30 = arcsin (sin (refracted_deg (133 / 100) 30 * pi / 180) / (133 / 100)) * 180 / pi"
  "0 < cot_deg (refracted_deg (133 / 100) 30)"
proof -
  have n: "(1::real) \<le> 133 / 100" "(0::real) < 30"
    "(30::real) < arcsin (1 / (133 / 100)) * 180 / pi"
    using criticalAngle_133_bounds by simp_all
  note r = refracted_deg_range [OF n]
  show c: "0 < cot_deg (refracted_deg (133 / 100) 30)"
    using r(2,3) by (rule sin_cos_deg_pos(3))
  have "\<bar>400 - 250\<bar> / (450 - (450 - 150 * cot_deg (refracted_deg (133 / 100) 30)))
        = 1 / cot_deg (refracted_deg (133 / 100) 30)"
    using c by simp
  then show "refracted_deg (133 / 100) 30 * pi / 180
     = arctan (\<bar>400 - 250\<bar> / (450 - (450 - 150 * cot_deg (refracted_deg (133 / 100) 30))))"
    using tan_deg [OF r(2,3)] by simp
  have "\<bar>400 - 550\<bar> / (450 - (450 - 150 * cot_deg (refracted_deg (133 / 100) 30)))
        = 1 / cot_deg (refracted_deg (133 / 100) 30)"
    using c by simp
  then show "refracted_deg (133 / 100) 30 * pi / 180
     = arctan (\<bar>400 - 550\<bar> / (450 - (450 - 150 * cot_deg (refracted_deg (133 / 100) 30))))"
    using tan_deg [OF r(2,3)] by simp
  have e: "sin (refracted_deg (133 / 100) 30 * pi / 180) / (133 / 100) = sin (pi / 6)"
    using r(4) by simp
  have "arcsin (sin (pi / 6 :: real)) = pi / 6"
    by (rule arcsin_sin) (use pi_ge_zero in simp_all)
  then have "arcsin (sin (pi / 6 :: real)) * 180 / pi = pi / 6 * 180 / pi"
    by (simp only:)
  then have "arcsin (sin (pi / 6 :: real)) * 180 / pi = 30"
    by simp
  then show "30 = arcsin (sin (refracted_deg (133 / 100) 30 * pi / 180) / (133 / 100)) * 180 / pi"
    by (simp only: e)
qed

theorem stored_round_trip_witness:
  "leftAngleDeg
     (updateAnglesFromRealPosition
        \<lparr> px = Fin 400, py = Fin (450 - 150 * cot_deg (refracted_deg (133 / 100) 30)) \<rparr>
        initial_state) = Fin 30 \<and>
   leftRefractedAngle
     (updateAnglesFromRealPosition
        \<lparr> px = Fin 400, py = Fin (450 - 150 * cot_deg (refracted_deg (133 / 100) 30)) \<rparr>
        initial_state) = Fin (refracted_deg (133 / 100) 30)"
proof -
  have n: "(1::real) \<le> 133 / 100" "(133 / 100 :: real) < 2"
    by simp_all
  have y: "450 - 150 * cot_deg (refracted_deg (133 / 100) 30) < 450"
    using real_position_incident(4) by simp
  have f: "parseFloat_toFixed1 (Fin 30) = Fin 30"
    by (simp add: round1_def)
  have d: "refracted_deg (133 / 100) 30 * pi / 180 * 180 / pi = refracted_deg (133 / 100) 30"
    by simp
  from stored_round_trip [OF initial_state_fields(1) n initial_state_fields(2,3) y y
      real_position_incident(1,2,3,3) refl]
  show ?thesis
    by (simp only: f d simp_thms)
qed

theorem stored_round_trip_counterexample:
  "arctan (\<bar>350 - 250\<bar> / (450 - 350)) * 180 / pi = (45::real) \<and>
   num_lt (Fin 45) (criticalAngle initial_state) \<and>
   leftAngleDeg (updateAnglesFromRealPosition \<lparr> px = Fin 350, py = Fin 350 \<rparr> initial_state)
     = Fin (321 / 10) \<and>
   leftRefractedAngle (updateAnglesFromRealPosition \<lparr> px = Fin 350, py = Fin 350 \<rparr> initial_state)
     = Fin (arcsin (133 / 100 * sin (321 / 10 * pi / 180)) * 180 / pi) \<and>
   arcsin (133 / 100 * sin (321 / 10 * pi / 180)) * 180 / pi < (4498 / 100 :: real)"
proof -
  let ?s = "updateAnglesFromRealPosition \<lparr> px = Fin 350, py = Fin 350 \<rparr> initial_state"
  have a: "arctan (\<bar>350 - 250\<bar> / (450 - 350)) = (pi / 4 :: real)"
    by (simp add: arctan_one)
  then have "arctan (\<bar>350 - 250\<bar> / (450 - 350)) * 180 / pi = (pi / 4 * 180 / pi :: real)"
    by (simp only:)
  also have "\<dots> = 45"
    by simp
  finally have t: "arctan (\<bar>350 - 250\<bar> / (450 - 350)) * 180 / pi = (45::real)" .
  have c: "num_lt (Fin 45) (criticalAngle initial_state)"
    using critical_angle_133_tight(1)
    by (simp add: criticalAngle_133 initial_state_fields)
  have n: "(1::real) \<le> 133 / 100" "(350::real) < 450"
    by simp_all
  note st = updateAnglesFromRealPosition_stored [OF initial_state_fields(1) n(1)
      initial_state_fields(2,3) n(2) n(2), of 350]
  have l: "leftAngleDeg ?s = Fin (321 / 10)"
    using st(1) by (simp only: a water_45_stored)
  have cs: "criticalAngle ?s = Fin (arcsin (100 / 133) * 180 / pi)"
    using st(3) by (rule criticalAngle_133)
  have b: "(0::real) \<le> 321 / 10" "(321 / 10 :: real) < arcsin (1 / (133 / 100)) * 180 / pi"
    using critical_angle_133_tight(1) by simp_all
  have "\<not> leftExceedsCritical ?s"
    using critical_angle_133_tight(1) by (simp add: leftExceedsCritical_def cs l)
  then have r: "leftRefractedAngle ?s
      = Fin (arcsin (133 / 100 * sin (321 / 10 * pi / 180)) * 180 / pi)"
    using waterToAirDeg_below(1) [OF n(1) b]
    by (simp add: leftRefractedAngle_def st(3) l)
  from t c l r refracted_321_bound show ?thesis by simp
qed

section \<open>The angle watcher after a drag\<close>

lemma arctan_small:
  "arctan (1 / 1500 :: real) \<le> 1 / 1400"
proof -
  let ?t = "1 / 1400 :: real"
  have r: "- (pi / 2) < ?t" "?t < pi / 2"
    using pi_lower by simp_all
  have c: "0 < cos ?t"
    by (rule cos_gt_zero_pi) (use r in simp_all)
  have "?t - ?t ^ 3 / 6 + ?t ^ 5 / 120 - ?t ^ 7 / 5040 - ?t ^ 9 / 362880 \<le> sin ?t"
    by (rule sin_lower9) simp
  moreover
  have "(1 / 1500 :: real) \<le> ?t - ?t ^ 3 / 6 + ?t ^ 5 / 120 - ?t ^ 7 / 5040 - ?t ^ 9 / 362880"
    by (simp add: power_divide)
  ultimately have s: "1 / 1500 \<le> sin ?t"
    by (rule order_trans [rotated])
  then have "0 \<le> sin ?t"
    by linarith
  then have "sin ?t * cos ?t \<le> sin ?t"
    using mult_left_le [of "cos ?t" "sin ?t"] by simp
  then have "sin ?t \<le> tan ?t"
    using c by (simp add: tan_def pos_le_divide_eq)
  with s have "1 / 1500 \<le> tan ?t"
    by (rule order_trans)
  then have "arctan (1 / 1500) \<le> arctan (tan ?t)"
    by (rule arctan_monotone')
  also have "arctan (tan ?t) = ?t"
    using r by (rule arctan_tan)
  finally show ?thesis .
qed

lemma arctan_1500_deg:
  "8995 / 100 \<le> arctan 1500 * 180 / pi" "arctan 1500 * 180 / pi < 9005 / 100"
proof -
  have i: "arctan (1 / 1500) = pi / 2 - arctan 1500"
    using arctan_inverse [of 1500] by simp
  have "pi / 2 - 1 / 1400 \<le> arctan 1500"
    using i arctan_small by linarith
  moreover have "8995 / 100 * pi / 180 \<le> pi / 2 - 1 / 1400"
    using pi_lower by simp
  ultimately have "8995 / 100 * pi / 180 \<le> arctan 1500"
    by linarith
  then have "8995 / 100 * pi \<le> arctan 1500 * 180"
    by simp
  then show "8995 / 100 \<le> arctan 1500 * 180 / pi"
    by (simp add: pos_le_divide_eq)
  have "arctan (1500 :: real) < pi / 2"
    by (rule arctan_ubound)
  then have "arctan 1500 * 180 < 9005 / 100 * pi"
    using pi_gt_zero by linarith
  then show "arctan 1500 * 180 / pi < 9005 / 100"
    by (simp add: pos_divide_less_eq)
qed

lemma parseFloat_toFixed1_nonneg:
  "0 \<le> a \<Longrightarrow> a < 10 ^ 21 \<Longrightarrow> parseFloat_toFixed1 (Fin a) = Fin (round1 a)"
  by (simp add: not_le)

lemma arctan_1500_stored:
  "parseFloat_toFixed1 (Fin (arctan 1500 * 180 / pi)) = Fin 90"
proof -
  have "round1 (arctan 1500 * 180 / pi) = of_int 900 / 10"
    by (rule round1_eq) (use arctan_1500_deg in simp_all)
  then have r: "round1 (arctan 1500 * 180 / pi) = 90"
    by simp
  have "(9005 / 100 :: real) < 10 ^ 21"
    by simp
  then have b: "0 \<le> arctan 1500 * 180 / pi" "arctan 1500 * 180 / pi < 10 ^ 21"
    using arctan_1500_deg by linarith+
  have "parseFloat_toFixed1 (Fin (arctan 1500 * 180 / pi)) = Fin (round1 (arctan 1500 * 180 / pi))"
    using b by (rule parseFloat_toFixed1_nonneg)
  then show ?thesis
    by (simp only: r)
qed

lemma updateApparentFromReal_angles [simp]:
  "leftAngleDeg (updateApparentFromReal s) = leftAngleDeg s"
  "rightAngleDeg (updateApparentFromReal s) = rightAngleDeg s"
  by (simp_all add: updateApparentFromReal_def Let_def split: option.splits)

lemma drag_near_interface:
  "leftAngleDeg (handleMouseMove canvas_rect
      \<lparr> clientX = Fin 400, clientY = Fin (4499 / 10) \<rparr> dragging_apparent) = Fin 90"
  "\<not> updatingFromDrag (handleMouseMove canvas_rect
      \<lparr> clientX = Fin 400, clientY = Fin (4499 / 10) \<rparr> dragging_apparent)"
proof -
  have y: "(4499 / 10 :: real) < 450" by simp
  have a: "num_abs (num_atan2_neg (Fin 150) (Fin (- (1 / 10)))) = Fin (arctan 1500)"
    using incident_angle(1) [OF y, of 400 250] by (simp add: num_sub_def)
  have m: "num_div (Fin (arctan 1500 * 180)) num_PI = Fin (arctan 1500 * 180 / pi)"
    by (simp add: num_PI_def)
  show "leftAngleDeg (handleMouseMove canvas_rect
      \<lparr> clientX = Fin 400, clientY = Fin (4499 / 10) \<rparr> dragging_apparent) = Fin 90"
    by (simp add: handleMouseMove_def dragging_apparent_def initial_state_def canvas_rect_def
        screenToWorld_def waterLevelY_def updateAnglesFromPositions_def Let_def
        a m arctan_1500_stored num_sub_def del: parseFloat_toFixed1.simps)
  show "\<not> updatingFromDrag (handleMouseMove canvas_rect
      \<lparr> clientX = Fin 400, clientY = Fin (4499 / 10) \<rparr> dragging_apparent)"
    by (rule handleMouseMove_flag_released) (simp add: dragging_apparent_def initial_state_def)
qed

text \<open>
  C6. The apparent position is dragged to \<open>(400, 449.9)\<close> from the initial configuration,
  the suppress flag clear as it is between events. The handler sets the flag, writes the
  left Angle 90 and clears the flag before it returns. The callback of the angle watcher
  that this write triggers runs after the handler: it finds the flag clear, runs its body
  and changes the left Angle to 89.9. The write of the handler has re-triggered the
  clamp-and-recompute, and the flag has not prevented it.
\<close>

theorem drag_retriggers_angle_watcher:
  "\<not> updatingFromDrag dragging_apparent \<and>
   leftAngleDeg dragging_apparent = Fin 30 \<and>
   leftAngleDeg (run [MouseMove canvas_rect \<lparr> clientX = Fin 400, clientY = Fin (4499 / 10) \<rparr>]
      dragging_apparent) = Fin 90 \<and>
   \<not> updatingFromDrag
      (run [MouseMove canvas_rect \<lparr> clientX = Fin 400, clientY = Fin (4499 / 10) \<rparr>]
         dragging_apparent) \<and>
   leftAngleDeg
      (run [MouseMove canvas_rect \<lparr> clientX = Fin 400, clientY = Fin (4499 / 10) \<rparr>, AngleWatcher]
         dragging_apparent) = Fin (899 / 10)"
  using drag_near_interface
  by (simp add: angleWatcher_def Let_def) (simp add: dragging_apparent_def initial_state_def)

end
